theory Spec2Isabelle
  imports Main "HOL-Library.Sublist" "HOL-Library.AList"
begin

section \<open>Strings, errors and the runtime's built-ins\<close>

text \<open>
  A JavaScript string is modelled by its UTF-8 bytes (\<open>string\<close> is \<open>char list\<close> and a
  \<open>char\<close> is a byte), so the ASCII text the program compares (\<open>file://\<close>, \<open>%\<close>, the
  remote and branch names) is the literal itself and the Chinese messages are the byte
  sequences of their UTF-8 encoding. A thrown exception is a value: every operation that
  can throw returns \<open>js_error + 'a\<close>, with \<open>Inl\<close> for the exception, and every
  \<open>try\<close>/\<open>catch\<close> of the source is a case distinction on it.
\<close>

datatype js_error = Error (message_of: string)

definition URIError :: js_error where
  "URIError = Error ''URI malformed''"

subsection \<open>decodeURIComponent\<close>

text \<open>
  ECMAScript's \<open>Decode\<close> with an empty set of preserved escapes. A \<open>%\<close> must be
  followed by two hexadecimal digits giving the octet \<open>B\<close>; the number \<open>n\<close> of leading
  one bits of \<open>B\<close> decides between an ASCII character (\<open>n = 0\<close>), an error (\<open>n = 1\<close> or
  \<open>n > 4\<close>) and a sequence of \<open>n\<close> escaped octets that must be the UTF-8 encoding of
  one code point. On the UTF-8 representation of strings the decoded code point is
  written back as the very octets that encoded it.
\<close>

definition hex_value :: "char \<Rightarrow> nat option" where
  "hex_value c =
     (let n = (of_char c :: nat) in
      if 48 \<le> n \<and> n \<le> 57 then Some (n - 48)
      else if 65 \<le> n \<and> n \<le> 70 then Some (n - 55)
      else if 97 \<le> n \<and> n \<le> 102 then Some (n - 87)
      else None)"

fun ParseHexOctet :: "string \<Rightarrow> nat option" where
  "ParseHexOctet (h # l # _) =
     (case hex_value h of
        None \<Rightarrow> None
      | Some a \<Rightarrow> (case hex_value l of None \<Rightarrow> None | Some b \<Rightarrow> Some (16 * a + b)))"
| "ParseHexOctet _ = None"

definition leading_ones :: "nat \<Rightarrow> nat" where
  "leading_ones B =
     (if B < 0x80 then 0 else if B < 0xC0 then 1 else if B < 0xE0 then 2
      else if B < 0xF0 then 3 else if B < 0xF8 then 4 else 5)"

fun continuation_octets :: "nat \<Rightarrow> string \<Rightarrow> nat list option" where
  "continuation_octets 0 s = Some []"
| "continuation_octets (Suc j) [] = None"
| "continuation_octets (Suc j) (c # rest) =
     (if c \<noteq> CHR ''%'' then None
      else case ParseHexOctet rest of
        None \<Rightarrow> None
      | Some b \<Rightarrow> map_option ((#) b) (continuation_octets j (drop 2 rest)))"

definition cont :: "nat \<Rightarrow> bool" where
  "cont b = (0x80 \<le> b \<and> b \<le> 0xBF)"

fun valid_utf8 :: "nat list \<Rightarrow> bool" where
  "valid_utf8 [b1, b2] = (0xC2 \<le> b1 \<and> b1 \<le> 0xDF \<and> cont b2)"
| "valid_utf8 [b1, b2, b3] =
     ((b1 = 0xE0 \<and> 0xA0 \<le> b2 \<and> b2 \<le> 0xBF
       \<or> 0xE1 \<le> b1 \<and> b1 \<le> 0xEC \<and> cont b2
       \<or> b1 = 0xED \<and> 0x80 \<le> b2 \<and> b2 \<le> 0x9F
       \<or> 0xEE \<le> b1 \<and> b1 \<le> 0xEF \<and> cont b2) \<and> cont b3)"
| "valid_utf8 [b1, b2, b3, b4] =
     ((b1 = 0xF0 \<and> 0x90 \<le> b2 \<and> b2 \<le> 0xBF
       \<or> 0xF1 \<le> b1 \<and> b1 \<le> 0xF3 \<and> cont b2
       \<or> b1 = 0xF4 \<and> 0x80 \<le> b2 \<and> b2 \<le> 0x8F) \<and> cont b3 \<and> cont b4)"
| "valid_utf8 _ = False"

definition prepend :: "string \<Rightarrow> js_error + string \<Rightarrow> js_error + string" where
  "prepend s r = (case r of Inl e \<Rightarrow> Inl e | Inr t \<Rightarrow> Inr (s @ t))"

fun decodeURIComponent :: "string \<Rightarrow> js_error + string" where
  "decodeURIComponent [] = Inr []"
| "decodeURIComponent (c # cs) =
     (if c \<noteq> CHR ''%'' then prepend [c] (decodeURIComponent cs)
      else
        (case ParseHexOctet cs of
           None \<Rightarrow> Inl URIError
         | Some B \<Rightarrow>
             (if leading_ones B = 0
              then prepend [char_of B] (decodeURIComponent (drop 2 cs))
              else if leading_ones B = 1 \<or> 4 < leading_ones B then Inl URIError
              else
                (case continuation_octets (leading_ones B - 1) (drop 2 cs) of
                   None \<Rightarrow> Inl URIError
                 | Some bs \<Rightarrow>
                     (if valid_utf8 (B # bs)
                      then prepend (map char_of (B # bs))
                             (decodeURIComponent (drop (2 + 3 * (leading_ones B - 1)) cs))
                      else Inl URIError)))))"

section \<open>Path normalisation\<close>

text \<open>
  \<open>GitService.cleanWorkspacePath\<close> (git.ts) and \<open>WorkspaceCache.cleanWorkspacePath\<close>
  (workspace-cache.ts): remove a leading \<open>file://\<close> (the regular expression is
  anchored at the start), then percent-decode; when decoding throws, the stripped string
  is kept. The cache's copy first maps \<open>null\<close> and the empty string to \<open>null\<close>.
\<close>

definition strip_file_scheme :: "string \<Rightarrow> string" where
  "strip_file_scheme workspace =
     (if prefix ''file://'' workspace then drop 7 workspace else workspace)"

definition cleanWorkspacePath :: "string \<Rightarrow> string" where
  "cleanWorkspacePath workspace =
     (let cleanPath = strip_file_scheme workspace in
      case decodeURIComponent cleanPath of
        Inl e \<Rightarrow> cleanPath
      | Inr decoded \<Rightarrow> decoded)"

definition WorkspaceCache_cleanWorkspacePath :: "string option \<Rightarrow> string option" where
  "WorkspaceCache_cleanWorkspacePath workspace =
     (case workspace of
        None \<Rightarrow> None
      | Some ws \<Rightarrow>
          if ws = [] then None
          else (let cleanPath = strip_file_scheme ws in
                case decodeURIComponent cleanPath of
                  Inl e \<Rightarrow> Some cleanPath
                | Inr decoded \<Rightarrow> Some decoded))"

section \<open>The environment\<close>

text \<open>
  The program talks to three collaborators: the file system, the \<open>simple-git\<close> handle
  bound to a working directory, and the Node runtime (\<open>path.join\<close>, \<open>os.homedir\<close>,
  \<open>process.platform\<close>, \<open>JSON.parse\<close>). None of them is code of this repository, so
  each is a field of the world the program runs in and every theorem holds for all of
  them.

  Version control is a capability: a command is run against the working directory and
  returns a structured result or throws. The commands that change the repository
  (\<open>add\<close>, \<open>commit\<close>, \<open>push\<close>) are recorded, with their outcome, in the \<open>history\<close> of
  the world; the answer of every command may depend on the history so far. A commit
  exists exactly when a \<open>Commit\<close> event without an error is in the history.
\<close>

record StatusResult =
  current :: "string option"
  created :: "string list"
  deleted :: "string list"
  modified :: "string list"
  renamed :: "(string \<times> string) list"
  not_added :: "string list"

record RemoteWithRefs =
  name :: string
  refs :: "string \<times> string"

datatype git_command = Add string | Commit string | Push string string

type_synonym git_event = "git_command \<times> js_error option"

record SimpleGit =
  revparse :: "git_event list \<Rightarrow> string list \<Rightarrow> js_error + string"
  status :: "git_event list \<Rightarrow> js_error + StatusResult"
  getRemotes :: "git_event list \<Rightarrow> js_error + RemoteWithRefs list"
  raw :: "git_event list \<Rightarrow> string list \<Rightarrow> js_error + string"
  add :: "git_event list \<Rightarrow> string \<Rightarrow> js_error option"
  commit :: "git_event list \<Rightarrow> string \<Rightarrow> js_error option"
  push :: "git_event list \<Rightarrow> string \<Rightarrow> string \<Rightarrow> js_error option"

text \<open>
  The cache file \<open>~/.coffic/git-helper/workspace.json\<close> is owned by
  \<open>WorkspaceCache\<close>: when it exists it either cannot be read, or is text that
  \<open>JSON.parse\<close> rejects, or is the object this class writes, from application
  identifier to workspace path or \<open>null\<close>. \<open>cache_file\<close> is \<open>None\<close> when the file
  does not exist; \<open>cache_mkdir_error\<close> and \<open>cache_write_error\<close> say whether creating
  the directory and writing the file throw.
\<close>

datatype cache_file =
    Unreadable js_error
  | Unparsable
  | CacheData "(string \<times> string option) list"

text \<open>
  The storage files of the editors are text; \<open>JSON.parse\<close> maps a text to a JSON
  value or throws. \<open>sqlite_all\<close> is the result of opening a database file read-only
  and running the service's fixed query on it: the rows in the order the query returns
  them, or the error of either step.
\<close>

datatype json =
    JNull
  | JBool bool
  | JNum string \<comment> \<open>a number, as \<open>Number::toString\<close> prints it\<close>
  | JStr string
  | JArr "json list"
  | JObj "(string \<times> json) list"

datatype row_value = RNull | RString string | RBuffer string

record world =
  platform :: string
  homedir :: string
  APPDATA :: "string option"
  path_join :: "string list \<Rightarrow> string"
  existsSync :: "string \<Rightarrow> bool"
  readFileSync :: "string \<Rightarrow> js_error + string"
  JSON_parse :: "string \<Rightarrow> js_error + json"
  sqlite_all :: "string \<Rightarrow> js_error + (string \<times> row_value) list"
  cache_dir_exists :: bool
  cache_mkdir_error :: "js_error option"
  cache_file :: "cache_file option"
  cache_write_error :: "js_error option"
  simpleGit :: "string \<Rightarrow> js_error + SimpleGit"
  history :: "git_event list"

definition record_event :: "git_command \<Rightarrow> js_error option \<Rightarrow> world \<Rightarrow> world" where
  "record_event c outcome w = w\<lparr>history := history w @ [(c, outcome)]\<rparr>"

definition commits_created :: "world \<Rightarrow> string list" where
  "commits_created w = [m. (Commit m, None) \<leftarrow> history w]"

section \<open>GitService (git.ts)\<close>

definition bytes :: "nat list \<Rightarrow> string" where
  "bytes = map char_of"

text \<open>The fixed texts of git.ts, as the UTF-8 bytes of the Chinese originals.\<close>

definition txt_created :: string where \<comment> \<open>added: \<close>
  "txt_created = bytes [0xE6, 0x96, 0xB0, 0xE5, 0xA2, 0x9E] @ '': ''"

definition txt_modified :: string where \<comment> \<open>modified: \<close>
  "txt_modified = bytes [0xE4, 0xBF, 0xAE, 0xE6, 0x94, 0xB9] @ '': ''"

definition txt_deleted :: string where \<comment> \<open>deleted: \<close>
  "txt_deleted = bytes [0xE5, 0x88, 0xA0, 0xE9, 0x99, 0xA4] @ '': ''"

definition txt_renamed :: string where \<comment> \<open>renamed: \<close>
  "txt_renamed = bytes [0xE9, 0x87, 0x8D, 0xE5, 0x91, 0xBD, 0xE5, 0x90, 0x8D] @ '': ''"

definition txt_untracked :: string where \<comment> \<open>untracked: \<close>
  "txt_untracked = bytes [0xE6, 0x9C, 0xAA, 0xE8, 0xB7, 0x9F, 0xE8, 0xB8, 0xAA] @ '': ''"

definition txt_files :: string where \<comment> \<open> files, \<close>
  "txt_files = bytes [0xE4, 0xB8, 0xAA, 0xE6, 0x96, 0x87, 0xE4, 0xBB, 0xB6] @ '', ''"

definition msg_not_initialized :: string where \<comment> \<open>Git service not initialised\<close>
  "msg_not_initialized = ''Git'' @ bytes [0xE6, 0x9C, 0x8D, 0xE5, 0x8A, 0xA1, 0xE6, 0x9C,
       0xAA, 0xE5, 0x88, 0x9D, 0xE5, 0xA7, 0x8B, 0xE5, 0x8C, 0x96]"

definition msg_not_repository :: string where \<comment> \<open>the current directory is not a Git repository\<close>
  "msg_not_repository = bytes [0xE5, 0xBD, 0x93, 0xE5, 0x89, 0x8D, 0xE7, 0x9B, 0xAE, 0xE5,
       0xBD, 0x95, 0xE4, 0xB8, 0x8D, 0xE6, 0x98, 0xAF] @ ''Git'' @ bytes [0xE4, 0xBB,
       0x93, 0xE5, 0xBA, 0x93]"

definition msg_nothing_to_commit :: string where \<comment> \<open>no changes to commit\<close>
  "msg_nothing_to_commit = bytes [0xE6, 0xB2, 0xA1, 0xE6, 0x9C, 0x89, 0xE9, 0x9C, 0x80,
       0xE8, 0xA6, 0x81, 0xE6, 0x8F, 0x90, 0xE4, 0xBA, 0xA4, 0xE7, 0x9A, 0x84, 0xE6, 0x9B,
       0xB4, 0xE6, 0x94, 0xB9]"

definition txt_auto_commit :: string where \<comment> \<open>automatic commit: \<close>
  "txt_auto_commit = bytes [0xE8, 0x87, 0xAA, 0xE5, 0x8A, 0xA8, 0xE6, 0x8F, 0x90, 0xE4,
       0xBA, 0xA4] @ '': ''"

definition msg_no_remote :: string where \<comment> \<open>changes committed, but no remote repository was found: cannot push\<close>
  "msg_no_remote = bytes [0xE5, 0xB7, 0xB2, 0xE6, 0x88, 0x90, 0xE5, 0x8A, 0x9F, 0xE6,
       0x8F, 0x90, 0xE4, 0xBA, 0xA4, 0xE6, 0x9B, 0xB4, 0xE6, 0x94, 0xB9, 0xEF, 0xBC, 0x8C,
       0xE4, 0xBD, 0x86, 0xE6, 0x9C, 0xAA, 0xE6, 0x89, 0xBE, 0xE5, 0x88, 0xB0, 0xE8, 0xBF,
       0x9C, 0xE7, 0xA8, 0x8B, 0xE4, 0xBB, 0x93, 0xE5, 0xBA, 0x93, 0xEF, 0xBC, 0x8C, 0xE6,
       0x97, 0xA0, 0xE6, 0xB3, 0x95, 0xE6, 0x8E, 0xA8, 0xE9, 0x80, 0x81]"

definition msg_no_branch :: string where \<comment> \<open>changes committed, but the current branch is unknown: cannot push\<close>
  "msg_no_branch = bytes [0xE5, 0xB7, 0xB2, 0xE6, 0x88, 0x90, 0xE5, 0x8A, 0x9F, 0xE6,
       0x8F, 0x90, 0xE4, 0xBA, 0xA4, 0xE6, 0x9B, 0xB4, 0xE6, 0x94, 0xB9, 0xEF, 0xBC, 0x8C,
       0xE4, 0xBD, 0x86, 0xE6, 0x9C, 0xAA, 0xE8, 0x83, 0xBD, 0xE8, 0x8E, 0xB7, 0xE5, 0x8F,
       0x96, 0xE5, 0xBD, 0x93, 0xE5, 0x89, 0x8D, 0xE5, 0x88, 0x86, 0xE6, 0x94, 0xAF, 0xEF,
       0xBC, 0x8C, 0xE6, 0x97, 0xA0, 0xE6, 0xB3, 0x95, 0xE6, 0x8E, 0xA8, 0xE9, 0x80,
       0x81]"

definition txt_pushed :: string where \<comment> \<open>changes committed and pushed: \<close>
  "txt_pushed = bytes [0xE5, 0xB7, 0xB2, 0xE6, 0x88, 0x90, 0xE5, 0x8A, 0x9F, 0xE6, 0x8F,
       0x90, 0xE4, 0xBA, 0xA4, 0xE5, 0xB9, 0xB6, 0xE6, 0x8E, 0xA8, 0xE9, 0x80, 0x81, 0xE6,
       0x9B, 0xB4, 0xE6, 0x94, 0xB9] @ '': ''"

definition txt_failed :: string where \<comment> \<open>commit and push failed: \<close>
  "txt_failed = bytes [0xE6, 0x8F, 0x90, 0xE4, 0xBA, 0xA4, 0xE5, 0xB9, 0xB6, 0xE6, 0x8E,
       0xA8, 0xE9, 0x80, 0x81, 0xE5, 0xA4, 0xB1, 0xE8, 0xB4, 0xA5] @ '': ''"

definition txt_unknown_error :: string where \<comment> \<open>unknown error\<close>
  "txt_unknown_error = bytes [0xE6, 0x9C, 0xAA, 0xE7, 0x9F, 0xA5, 0xE9, 0x94, 0x99, 0xE8,
       0xAF, 0xAF]"


subsection \<open>Numbers in text\<close>

text \<open>
  A template literal prints an array length in decimal; \<open>parseInt(s, 10)\<close> skips
  leading white space, reads an optional sign and the longest run of decimal digits, and
  is \<open>NaN\<close> (here \<open>None\<close>) when there is no digit. \<open>trim\<close> removes white space at
  both ends. Only the ASCII white space characters are modelled.
\<close>

fun decimal :: "nat \<Rightarrow> string" where
  "decimal n =
     (if n < 10 then [char_of (48 + n)]
      else decimal (n div 10) @ [char_of (48 + n mod 10)])"

declare decimal.simps [simp del]

definition is_space :: "char \<Rightarrow> bool" where
  "is_space c = (of_char c \<in> {9, 10, 11, 12, 13, 32 :: nat})"

definition is_digit :: "char \<Rightarrow> bool" where
  "is_digit c = (48 \<le> (of_char c :: nat) \<and> (of_char c :: nat) \<le> 57)"

definition trim :: "string \<Rightarrow> string" where
  "trim s = rev (dropWhile is_space (rev (dropWhile is_space s)))"

definition digits_value :: "string \<Rightarrow> nat" where
  "digits_value ds = foldl (\<lambda>acc c. 10 * acc + (of_char c - 48)) 0 ds"

definition parseInt :: "string \<Rightarrow> int option" where
  "parseInt inputString =
     (let S = dropWhile is_space inputString;
          sign = (if S \<noteq> [] \<and> hd S = CHR ''-'' then - 1 else 1 :: int);
          S' = (if S \<noteq> [] \<and> (hd S = CHR ''+'' \<or> hd S = CHR ''-'') then tl S else S);
          Z = takeWhile is_digit S'
      in if Z = [] then None else Some (sign * int (digits_value Z)))"

subsection \<open>The service\<close>

record GitService =
  git :: "SimpleGit option"
  workspacePath :: string

record GitStatus =
  isRepo :: bool
  branch :: string
  changedFilesCount :: nat
  hasChanges :: bool
  hasUnpushedCommits :: bool

record SyncResult =
  success :: bool
  message :: string

text \<open>
  The constructor: an empty path leaves the handle \<open>null\<close> and the path empty; otherwise
  the path is normalised and \<open>simpleGit\<close> is called, whose exception is logged and
  leaves the handle \<open>null\<close>.
\<close>

definition new_GitService :: "world \<Rightarrow> string \<Rightarrow> GitService" where
  "new_GitService w path =
     (if path = [] then \<lparr>git = None, workspacePath = []\<rparr>
      else (let cleanPath = cleanWorkspacePath path in
            \<lparr>git = (case simpleGit w cleanPath of Inl e \<Rightarrow> None | Inr g \<Rightarrow> Some g),
             workspacePath = cleanPath\<rparr>))"

definition or_empty :: "string option \<Rightarrow> string" where \<comment> \<open>\<open>x || ''\<close>\<close>
  "or_empty x = (case x of None \<Rightarrow> [] | Some s \<Rightarrow> s)"

definition isGitRepository :: "GitService \<Rightarrow> world \<Rightarrow> bool" where
  "isGitRepository svc w =
     (case git svc of
        None \<Rightarrow> False
      | Some g \<Rightarrow>
          (let gitDir = path_join w [workspacePath svc, ''.git''] in
           if \<not> existsSync w gitDir then False
           else case revparse g (history w) [''--is-inside-work-tree''] of
             Inl e \<Rightarrow> False
           | Inr out \<Rightarrow> True))"

definition defaultStatus :: GitStatus where
  "defaultStatus =
     \<lparr>isRepo = False, branch = [], changedFilesCount = 0, hasChanges = False,
      hasUnpushedCommits = False\<rparr>"

definition count_changed :: "StatusResult \<Rightarrow> nat" where
  "count_changed st =
     length (created st) + length (deleted st) + length (modified st)
       + length (renamed st) + length (not_added st)"

definition GitService_hasUnpushedCommits :: "GitService \<Rightarrow> world \<Rightarrow> bool" where
  "GitService_hasUnpushedCommits svc w =
     (case git svc of
        None \<Rightarrow> False
      | Some g \<Rightarrow>
          (case status g (history w) of
             Inl e \<Rightarrow> False
           | Inr st \<Rightarrow>
               (let currentBranch = or_empty (current st) in
                if currentBranch = [] then False
                else case getRemotes g (history w) of
                  Inl e \<Rightarrow> False
                | Inr remotes \<Rightarrow>
                    if length remotes = 0 then False
                    else (let defaultRemote = name (hd remotes);
                              remoteBranch = defaultRemote @ ''/'' @ currentBranch in
                          case revparse g (history w)
                                 [''--verify'', ''refs/remotes/'' @ remoteBranch] of
                            Inl e \<Rightarrow> True
                          | Inr out \<Rightarrow>
                              (case raw g (history w)
                                      [''rev-list'', ''--count'',
                                       remoteBranch @ ''..'' @ currentBranch] of
                                 Inl e \<Rightarrow> False
                               | Inr diff \<Rightarrow>
                                   (case parseInt (trim diff) of
                                      None \<Rightarrow> False
                                    | Some count \<Rightarrow> count > 0))))))"

definition getStatus :: "GitService \<Rightarrow> world \<Rightarrow> GitStatus" where
  "getStatus svc w =
     (case git svc of
        None \<Rightarrow> defaultStatus
      | Some g \<Rightarrow>
          if \<not> isGitRepository svc w then defaultStatus
          else
            (case status g (history w) of
               Inl e \<Rightarrow> defaultStatus
             | Inr st \<Rightarrow>
                 \<lparr>isRepo = True,
                  branch = or_empty (current st),
                  changedFilesCount = count_changed st,
                  hasChanges = (count_changed st > 0),
                  hasUnpushedCommits = GitService_hasUnpushedCommits svc w\<rparr>))"

definition category :: "string \<Rightarrow> nat \<Rightarrow> string" where
  "category label n = (if n > 0 then label @ decimal n @ txt_files else [])"

definition strip_trailing_comma :: "string \<Rightarrow> string" where \<comment> \<open>\<open>replace(/, $/, '')\<close>\<close>
  "strip_trailing_comma s = (if suffix '', '' s then take (length s - 2) s else s)"

definition getChangesDescription :: "GitService \<Rightarrow> world \<Rightarrow> string" where
  "getChangesDescription svc w =
     (case git svc of
        None \<Rightarrow> []
      | Some g \<Rightarrow>
          (case status g (history w) of
             Inl e \<Rightarrow> []
           | Inr st \<Rightarrow>
               strip_trailing_comma
                 (category txt_created (length (created st))
                  @ category txt_modified (length (modified st))
                  @ category txt_deleted (length (deleted st))
                  @ category txt_renamed (length (renamed st))
                  @ category txt_untracked (length (not_added st)))))"

text \<open>
  \<open>commitAndPush\<close>: the body of the \<open>try\<close> block returns a result or the exception that
  left it, with the world as the commands run so far have changed it; the \<open>catch\<close>
  turns the exception into a failure result. The status read before staging is the one
  the branch name is taken from after the commit.
\<close>

definition commitMessage_of :: "string \<Rightarrow> string" where
  "commitMessage_of changesDescription = txt_auto_commit @ changesDescription @ '' [GitOK]''"

definition commitAndPush_body ::
    "GitService \<Rightarrow> SimpleGit \<Rightarrow> world \<Rightarrow> (js_error + SyncResult) \<times> world" where
  "commitAndPush_body svc g w =
     (if \<not> isGitRepository svc w
      then (Inr \<lparr>success = False, message = msg_not_repository\<rparr>, w)
      else case status g (history w) of
        Inl e \<Rightarrow> (Inl e, w)
      | Inr st \<Rightarrow>
          if count_changed st = 0
          then (Inr \<lparr>success = False, message = msg_nothing_to_commit\<rparr>, w)
          else
            (let changesDescription = getChangesDescription svc w;
                 commitMessage = commitMessage_of changesDescription;
                 added = add g (history w) ''.'';
                 w1 = record_event (Add ''.'') added w in
             case added of
               Some e \<Rightarrow> (Inl e, w1)
             | None \<Rightarrow>
                 (let committed = commit g (history w1) commitMessage;
                      w2 = record_event (Commit commitMessage) committed w1 in
                  case committed of
                    Some e \<Rightarrow> (Inl e, w2)
                  | None \<Rightarrow>
                      (case getRemotes g (history w2) of
                         Inl e \<Rightarrow> (Inl e, w2)
                       | Inr remotes \<Rightarrow>
                           if length remotes = 0
                           then (Inr \<lparr>success = True, message = msg_no_remote\<rparr>, w2)
                           else
                             (let currentBranch = or_empty (current st) in
                              if currentBranch = []
                              then (Inr \<lparr>success = True, message = msg_no_branch\<rparr>, w2)
                              else
                                (let pushed = push g (history w2) ''origin'' currentBranch;
                                     w3 = record_event (Push ''origin'' currentBranch) pushed w2 in
                                 case pushed of
                                   Some e \<Rightarrow> (Inl e, w3)
                                 | None \<Rightarrow>
                                     (Inr \<lparr>success = True,
                                           message = txt_pushed @ commitMessage\<rparr>, w3)))))))"

definition error_text :: "js_error \<Rightarrow> string" where \<comment> \<open>\<open>error.message || unknown\<close>\<close>
  "error_text e = (if message_of e = [] then txt_unknown_error else message_of e)"

definition commitAndPush :: "GitService \<Rightarrow> world \<Rightarrow> SyncResult \<times> world" where
  "commitAndPush svc w =
     (case git svc of
        None \<Rightarrow> (\<lparr>success = False, message = msg_not_initialized\<rparr>, w)
      | Some g \<Rightarrow>
          (case commitAndPush_body svc g w of
             (Inl e, w') \<Rightarrow> (\<lparr>success = False, message = txt_failed @ error_text e\<rparr>, w')
           | (Inr result, w') \<Rightarrow> (result, w')))"


section \<open>WorkspaceCache (workspace-cache.ts)\<close>

definition CURRENT_APP_KEY :: string where
  "CURRENT_APP_KEY = ''_current_app_''"

text \<open>
  \<open>cacheData[key] = value\<close> on the parsed object. The name \<open>__proto__\<close> is special
  in JavaScript: unless the object has it as an own property, the assignment goes to the
  inherited setter, which ignores a string, takes \<open>null\<close> as the new prototype, and
  creates no property either way.
\<close>

definition set_property ::
    "string \<Rightarrow> string option \<Rightarrow> (string \<times> string option) list
       \<Rightarrow> (string \<times> string option) list" where
  "set_property key v cacheData =
     (if key = ''__proto__'' \<and> map_of cacheData key = None then cacheData
      else AList.update key v cacheData)"

text \<open>
  Both writers share their shape: create the directory when it is missing, read the
  existing object (an unparsable file counts as the empty object, an unreadable one
  throws), set one key and write the object back. Every exception is caught and logged
  by the outer \<open>try\<close>, which leaves the file as it was.
\<close>

definition ensure_cache_dir :: "world \<Rightarrow> js_error + world" where
  "ensure_cache_dir w =
     (if \<not> cache_dir_exists w
      then (case cache_mkdir_error w of
              Some e \<Rightarrow> Inl e
            | None \<Rightarrow> Inr (w\<lparr>cache_dir_exists := True\<rparr>))
      else Inr w)"

definition read_cacheData :: "world \<Rightarrow> js_error + (string \<times> string option) list" where
  "read_cacheData w =
     (case cache_file w of
        None \<Rightarrow> Inr []
      | Some (Unreadable e) \<Rightarrow> Inl e
      | Some Unparsable \<Rightarrow> Inr []
      | Some (CacheData cacheData) \<Rightarrow> Inr cacheData)"

definition write_cacheData :: "(string \<times> string option) list \<Rightarrow> world \<Rightarrow> js_error + world" where
  "write_cacheData cacheData w =
     (case cache_write_error w of
        Some e \<Rightarrow> Inl e
      | None \<Rightarrow> Inr (w\<lparr>cache_file := Some (CacheData cacheData)\<rparr>))"

definition saveCurrentApp :: "world \<Rightarrow> string \<Rightarrow> world" where
  "saveCurrentApp w appId =
     (case ensure_cache_dir w of
        Inl e \<Rightarrow> w
      | Inr w1 \<Rightarrow>
          (case read_cacheData w1 of
             Inl e \<Rightarrow> w1
           | Inr cacheData \<Rightarrow>
               (case write_cacheData (set_property CURRENT_APP_KEY (Some appId) cacheData) w1 of
                  Inl e \<Rightarrow> w1
                | Inr w2 \<Rightarrow> w2)))"

definition getCurrentApp :: "world \<Rightarrow> string" where
  "getCurrentApp w =
     (case cache_file w of
        None \<Rightarrow> []
      | Some (Unreadable e) \<Rightarrow> []
      | Some Unparsable \<Rightarrow> []
      | Some (CacheData cacheData) \<Rightarrow>
          (case map_of cacheData CURRENT_APP_KEY of
             Some (Some app) \<Rightarrow> app
           | _ \<Rightarrow> []))"

definition saveWorkspace :: "world \<Rightarrow> string \<Rightarrow> string option \<Rightarrow> world" where
  "saveWorkspace w appId workspace =
     (case ensure_cache_dir w of
        Inl e \<Rightarrow> w
      | Inr w1 \<Rightarrow>
          (let cleanWorkspace = WorkspaceCache_cleanWorkspacePath workspace in
           case read_cacheData w1 of
             Inl e \<Rightarrow> w1
           | Inr cacheData \<Rightarrow>
               (case write_cacheData (set_property appId cleanWorkspace cacheData) w1 of
                  Inl e \<Rightarrow> w1
                | Inr w2 \<Rightarrow> w2)))"

text \<open>
  \<open>getWorkspace(appId?)\<close>: the identifier is the argument when it is given and not
  empty, else the cached current application; the cached value counts only when it is a
  non-empty string, and is returned only when the path exists on disk.
\<close>

definition truthy_string :: "string option \<Rightarrow> bool" where
  "truthy_string x = (case x of None \<Rightarrow> False | Some s \<Rightarrow> s \<noteq> [])"

definition getWorkspace :: "world \<Rightarrow> string option \<Rightarrow> string option" where
  "getWorkspace w appId =
     (case cache_file w of
        None \<Rightarrow> None
      | Some (Unreadable e) \<Rightarrow> None
      | Some Unparsable \<Rightarrow> None
      | Some (CacheData cacheData) \<Rightarrow>
          (let actualAppId =
                 (if truthy_string appId then or_empty appId
                  else (case map_of cacheData CURRENT_APP_KEY of
                          Some (Some app) \<Rightarrow> app
                        | _ \<Rightarrow> []))
           in if actualAppId = [] then None
              else (let workspace =
                          (case map_of cacheData actualAppId of
                             Some (Some ws) \<Rightarrow> if ws = [] then None else Some ws
                           | _ \<Rightarrow> None)
                    in case workspace of
                         None \<Rightarrow> None
                       | Some ws \<Rightarrow> if \<not> existsSync w ws then None else Some ws)))"

section \<open>Locating the storage file (vscode.ts, cursor.ts)\<close>

text \<open>
  \<open>findStoragePath\<close> of either service builds the list of candidate files for the
  platform and returns the first one that exists. The \<open>for\<close> loop over the candidates
  is the recursion \<open>first_existing\<close>.
\<close>

fun first_existing :: "world \<Rightarrow> string list \<Rightarrow> string option" where
  "first_existing w [] = None"
| "first_existing w (filePath # rest) =
     (if existsSync w filePath then Some filePath else first_existing w rest)"

definition VSCode_possiblePaths :: "world \<Rightarrow> string list" where
  "VSCode_possiblePaths w =
     (if platform w = ''darwin'' then
        [path_join w [homedir w, ''Library/Application Support/Code/storage.json''],
         path_join w [homedir w,
           ''Library/Application Support/Code/User/globalStorage/state.vscdb''],
         path_join w [homedir w,
           ''Library/Application Support/Code/User/globalStorage/storage.json''],
         path_join w [homedir w,
           ''Library/Application Support/Code - Insiders/storage.json''],
         path_join w [homedir w,
           ''Library/Application Support/Code - Insiders/User/globalStorage/state.vscdb''],
         path_join w [homedir w,
           ''Library/Application Support/Code - Insiders/User/globalStorage/storage.json'']]
      else if platform w = ''win32'' then
        (case APPDATA w of
           None \<Rightarrow> []
         | Some appData \<Rightarrow>
             if appData = [] then []
             else [path_join w [appData, ''Code/storage.json''],
                   path_join w [appData, ''Code/User/globalStorage/state.vscdb''],
                   path_join w [appData, ''Code/User/globalStorage/storage.json'']])
      else if platform w = ''linux'' then
        [path_join w [homedir w, ''.config/Code/storage.json''],
         path_join w [homedir w, ''.config/Code/User/globalStorage/state.vscdb''],
         path_join w [homedir w, ''.config/Code/User/globalStorage/storage.json'']]
      else [])"

definition VSCode_findStoragePath :: "world \<Rightarrow> string option" where
  "VSCode_findStoragePath w = first_existing w (VSCode_possiblePaths w)"

definition Cursor_possiblePaths :: "world \<Rightarrow> string list" where
  "Cursor_possiblePaths w =
     (if platform w = ''darwin'' then
        [path_join w [homedir w, ''Library/Application Support/Cursor/storage.json''],
         path_join w [homedir w,
           ''Library/Application Support/Cursor/User/globalStorage/storage.json'']]
      else if platform w = ''win32'' then
        (case APPDATA w of
           None \<Rightarrow> []
         | Some appData \<Rightarrow>
             if appData = [] then []
             else [path_join w [appData, ''Cursor/storage.json''],
                   path_join w [appData, ''Cursor/User/globalStorage/storage.json'']])
      else if platform w = ''linux'' then
        [path_join w [homedir w, ''.config/Cursor/storage.json''],
         path_join w [homedir w, ''.config/Cursor/User/globalStorage/storage.json'']]
      else [])"

definition Cursor_findStoragePath :: "world \<Rightarrow> string option" where
  "Cursor_findStoragePath w = first_existing w (Cursor_possiblePaths w)"

section \<open>Reading the workspace from the storage file\<close>

text \<open>
  JavaScript values as far as JSON produces them. \<open>truthy\<close> is the test of an
  \<open>if\<close>; \<open>js_get v k\<close> is the optional property access \<open>v?.k\<close> and \<open>js_first v\<close> is
  \<open>v?.[0]\<close>, both \<open>undefined\<close> (here \<open>None\<close>) on \<open>undefined\<close> and \<open>null\<close>. Only
  own properties are modelled: none of the names the services read is inherited with a
  value whose further access yields anything but \<open>undefined\<close>.
\<close>

fun truthy :: "json option \<Rightarrow> bool" where
  "truthy None = False"
| "truthy (Some JNull) = False"
| "truthy (Some (JBool b)) = b"
| "truthy (Some (JNum n)) = (n \<noteq> ''0'')"
| "truthy (Some (JStr s)) = (s \<noteq> [])"
| "truthy (Some (JArr xs)) = True"
| "truthy (Some (JObj kvs)) = True"

fun js_get :: "json option \<Rightarrow> string \<Rightarrow> json option" where
  "js_get (Some (JObj kvs)) k = map_of kvs k"
| "js_get v k = None"

fun js_first :: "json option \<Rightarrow> json option" where
  "js_first (Some (JObj kvs)) = map_of kvs ''0''"
| "js_first (Some (JArr (x # xs))) = Some x"
| "js_first (Some (JStr (c # cs))) = Some (JStr [c])"
| "js_first v = None"

text \<open>
  \<open>ToString\<close> of a JSON value, which \<open>decodeURIComponent\<close> applies to its argument:
  an array joins the strings of its elements with commas, \<open>null\<close> elements being empty.
\<close>

fun join_comma :: "string list \<Rightarrow> string" where
  "join_comma [] = []"
| "join_comma [s] = s"
| "join_comma (s # ss) = s @ '','' @ join_comma ss"

fun js_ToString :: "json \<Rightarrow> string" where
  "js_ToString JNull = ''null''"
| "js_ToString (JBool b) = (if b then ''true'' else ''false'')"
| "js_ToString (JNum n) = n"
| "js_ToString (JStr s) = s"
| "js_ToString (JArr xs) =
     join_comma (map (\<lambda>x. if x = JNull then [] else js_ToString x) xs)"
| "js_ToString (JObj kvs) = ''[object Object]''"

fun replace_first :: "string \<Rightarrow> string \<Rightarrow> string \<Rightarrow> string" where
  "replace_first pat rep [] = (if pat = [] then rep else [])"
| "replace_first pat rep (c # cs) =
     (if prefix pat (c # cs) then rep @ drop (length pat) (c # cs)
      else c # replace_first pat rep cs)"

subsection \<open>CursorService\<close>

definition parseCursorJson :: "world \<Rightarrow> string \<Rightarrow> string option" where
  "parseCursorJson w content =
     (case JSON_parse w content of
        Inl e \<Rightarrow> None
      | Inr data \<Rightarrow>
          if data = JNull then None
          else (let windowState = js_get (Some data) ''windowsState'';
                    folder = js_get (js_get windowState ''lastActiveWindow'') ''folder'' in
                case folder of
                  None \<Rightarrow> None
                | Some value \<Rightarrow>
                    if truthy (Some value)
                    then (case decodeURIComponent (js_ToString value) of
                            Inl e \<Rightarrow> None
                          | Inr decodedPath \<Rightarrow> Some decodedPath)
                    else None))"

definition Cursor_getWorkspace :: "world \<Rightarrow> string option" where
  "Cursor_getWorkspace w =
     (case Cursor_findStoragePath w of
        None \<Rightarrow> None
      | Some storagePath \<Rightarrow>
          (case readFileSync w storagePath of
             Inl e \<Rightarrow> None
           | Inr content \<Rightarrow> parseCursorJson w content))"

subsection \<open>VSCodeService\<close>

text \<open>
  A folder URI that is truthy but not a string has no \<open>replace\<close> method: the call
  throws a \<open>TypeError\<close>, which the enclosing \<open>catch\<close> turns into \<open>null\<close> (for the JSON
  file) or into the next row (for the database).
\<close>

definition parseJsonStorage :: "world \<Rightarrow> string \<Rightarrow> string option" where
  "parseJsonStorage w filePath =
     (case readFileSync w filePath of
        Inl e \<Rightarrow> None
      | Inr content \<Rightarrow>
          (case JSON_parse w content of
             Inl e \<Rightarrow> None
           | Inr data \<Rightarrow>
               if data = JNull then None
               else (let opened = js_get (js_first (js_get (js_get (Some data)
                                    ''openedPathsList'') ''entries'')) ''folderUri'';
                         window = js_get (js_get (js_get (Some data)
                                    ''windowState'') ''lastActiveWindow'') ''folderUri'';
                         folderUri = (if truthy opened then opened
                                      else if truthy window then window else None)
                     in if truthy folderUri
                        then (case folderUri of
                                Some (JStr uri) \<Rightarrow>
                                  (case decodeURIComponent (replace_first ''file://'' [] uri) of
                                     Inl e \<Rightarrow> None
                                   | Inr decoded \<Rightarrow> Some decoded)
                              | _ \<Rightarrow> None)
                        else None)))"

definition row_text :: "row_value \<Rightarrow> string option" where
  "row_text v =
     (case v of
        RNull \<Rightarrow> None
      | RString s \<Rightarrow> if s = [] then None else Some s
      | RBuffer b \<Rightarrow> Some b)"

fun scan_rows :: "world \<Rightarrow> (string \<times> row_value) list \<Rightarrow> string option" where
  "scan_rows w [] = None"
| "scan_rows w (row # rows) =
     (case row_text (snd row) of
        None \<Rightarrow> scan_rows w rows
      | Some jsonStr \<Rightarrow>
          (case JSON_parse w jsonStr of
             Inl e \<Rightarrow> scan_rows w rows
           | Inr data \<Rightarrow>
               if data = JNull then scan_rows w rows
               else if truthy (js_get (Some data) ''folderUri'')
               then (case js_get (Some data) ''folderUri'' of
                       Some (JStr uri) \<Rightarrow> Some (replace_first ''file://'' [] uri)
                     | _ \<Rightarrow> scan_rows w rows)
               else if truthy (js_get (js_first (js_get (js_get (Some data)
                                ''workspace'') ''folders'')) ''uri'')
               then (case js_get (js_first (js_get (js_get (Some data)
                             ''workspace'') ''folders'')) ''uri'' of
                       Some (JStr uri) \<Rightarrow> Some (replace_first ''file://'' [] uri)
                     | _ \<Rightarrow> scan_rows w rows)
               else scan_rows w rows))"

text \<open>
  The last \<open>decodeURIComponent\<close> of \<open>parseSqliteStorage\<close> runs inside the database
  callback, outside every \<open>try\<close>: when it throws, the exception leaves the callback and
  the promise is never settled. That outcome is \<open>Inl\<close>.
\<close>

definition parseSqliteStorage :: "world \<Rightarrow> string \<Rightarrow> js_error + string option" where
  "parseSqliteStorage w filePath =
     (case sqlite_all w filePath of
        Inl err \<Rightarrow> Inr None
      | Inr rows \<Rightarrow>
          (case scan_rows w rows of
             None \<Rightarrow> Inr None
           | Some stripped \<Rightarrow>
               if stripped = [] then Inr None
               else (case decodeURIComponent stripped of
                       Inl e \<Rightarrow> Inl e
                     | Inr decoded \<Rightarrow> Inr (Some decoded))))"

definition VSCode_getWorkspace :: "world \<Rightarrow> js_error + string option" where
  "VSCode_getWorkspace w =
     (case VSCode_findStoragePath w of
        None \<Rightarrow> Inr None
      | Some storagePath \<Rightarrow>
          if suffix ''.json'' storagePath then Inr (parseJsonStorage w storagePath)
          else if suffix ''.vscdb'' storagePath then parseSqliteStorage w storagePath
          else Inr None)"

section \<open>The plugin (index.ts)\<close>

record Action =
  action_id :: string
  title :: string
  description :: string
  icon :: "string option"

text \<open>
  The result of an action is its message. The fixed texts of index.ts, as the UTF-8
  bytes of the Chinese originals.
\<close>

type_synonym ActionResult = string

definition msg_workspace_unavailable :: string where \<comment> \<open>cannot get the workspace path, reopen the IDE\<close>
  "msg_workspace_unavailable = bytes [0xE6, 0x97, 0xA0, 0xE6, 0xB3, 0x95, 0xE8, 0x8E,
       0xB7, 0xE5, 0x8F, 0x96, 0xE5, 0xB7, 0xA5, 0xE4, 0xBD, 0x9C, 0xE5, 0x8C, 0xBA, 0xE8,
       0xB7, 0xAF, 0xE5, 0xBE, 0x84, 0xEF, 0xBC, 0x8C, 0xE8, 0xAF, 0xB7, 0xE9, 0x87, 0x8D,
       0xE6, 0x96, 0xB0, 0xE6, 0x89, 0x93, 0xE5, 0xBC, 0x80] @ ''IDE''"

definition msg_workspace_not_repository :: string where \<comment> \<open>the current workspace is not a Git repository\<close>
  "msg_workspace_not_repository = bytes [0xE5, 0xBD, 0x93, 0xE5, 0x89, 0x8D, 0xE5, 0xB7,
       0xA5, 0xE4, 0xBD, 0x9C, 0xE5, 0x8C, 0xBA, 0xE4, 0xB8, 0x8D, 0xE6, 0x98, 0xAF] @
       ''Git'' @ bytes [0xE4, 0xBB, 0x93, 0xE5, 0xBA, 0x93]"

definition txt_branch :: string where \<comment> \<open>branch:\<close>
  "txt_branch = bytes [0xE5, 0x88, 0x86, 0xE6, 0x94, 0xAF] @ '': ''"

definition txt_changed_files :: string where \<comment> \<open>changed files:\<close>
  "txt_changed_files = bytes [0xE5, 0x8F, 0x98, 0xE6, 0x9B, 0xB4, 0xE6, 0x96, 0x87, 0xE4,
       0xBB, 0xB6, 0xE6, 0x95, 0xB0] @ '': ''"

definition txt_changes :: string where \<comment> \<open>changes:\<close>
  "txt_changes = bytes [0xE5, 0x8F, 0x98, 0xE6, 0x9B, 0xB4, 0xE8, 0xAF, 0xA6, 0xE6, 0x83,
       0x85] @ '': ''"

definition txt_unpushed :: string where \<comment> \<open>there are unpushed commits, and a line feed\<close>
  "txt_unpushed = bytes [0xE6, 0x9C, 0x89, 0xE6, 0x9C, 0xAA, 0xE6, 0x8E, 0xA8, 0xE9, 0x80,
       0x81, 0xE7, 0x9A, 0x84, 0xE6, 0x8F, 0x90, 0xE4, 0xBA, 0xA4, 0x0A]"

definition txt_unknown_action :: string where \<comment> \<open>unknown action:\<close>
  "txt_unknown_action = bytes [0xE6, 0x9C, 0xAA, 0xE7, 0x9F, 0xA5, 0xE7, 0x9A, 0x84, 0xE5,
       0x8A, 0xA8, 0xE4, 0xBD, 0x9C] @ '': ''"

definition to_lower :: "char \<Rightarrow> char" where
  "to_lower c =
     (if 65 \<le> (of_char c :: nat) \<and> (of_char c :: nat) \<le> 90
      then char_of ((of_char c :: nat) + 32) else c)"

definition toLowerCase :: "string \<Rightarrow> string" where
  "toLowerCase s = map to_lower s"

fun js_includes :: "string \<Rightarrow> string \<Rightarrow> bool" where
  "js_includes [] sub = (sub = [])"
| "js_includes (c # cs) sub = (prefix sub (c # cs) \<or> js_includes cs sub)"

text \<open>
  What \<open>executeAction\<close> does once it has a workspace path: build the service and
  dispatch on the action's identifier. Only \<open>git_commit_push\<close> changes the world.
\<close>

definition status_message :: "GitStatus \<Rightarrow> string \<Rightarrow> string" where
  "status_message st changesDescription =
     txt_branch @ branch st @ [CHR 0x0A]
     @ txt_changed_files @ decimal (changedFilesCount st) @ [CHR 0x0A]
     @ (if hasChanges st then txt_changes @ changesDescription @ [CHR 0x0A] else [])
     @ (if hasUnpushedCommits st then txt_unpushed else [])"

definition run_action :: "world \<Rightarrow> string \<Rightarrow> Action \<Rightarrow> ActionResult \<times> world" where
  "run_action w workspace action =
     (let gitService = new_GitService w workspace in
      if action_id action = ''git_status'' then
        (if \<not> isGitRepository gitService w then (msg_workspace_not_repository, w)
         else (status_message (getStatus gitService w) (getChangesDescription gitService w), w))
      else if action_id action = ''git_commit_push'' then
        (if \<not> isGitRepository gitService w then (msg_workspace_not_repository, w)
         else (case commitAndPush gitService w of (result, w') \<Rightarrow> (message result, w')))
      else (txt_unknown_action @ action_id action, w))"

text \<open>
  \<open>executeAction\<close> reads the workspace from the cache. On a miss it asks the service of
  the cached current application for the workspace, stores a truthy answer in the cache
  and calls itself again. The call may not return: \<open>None\<close> is a run that never produces
  a result, which also covers the live query whose promise is never settled. Every
  collaborator called inside the \<open>try\<close> block catches its own exceptions, so the
  \<open>catch\<close> of \<open>executeAction\<close> is never entered and has no branch here.
\<close>

partial_function (option) executeAction :: "world \<Rightarrow> Action \<Rightarrow> (ActionResult \<times> world) option" where
  "executeAction w action =
     (case getWorkspace w None of
        None \<Rightarrow>
          (if getCurrentApp w \<noteq> [] then
             (if js_includes (toLowerCase (getCurrentApp w)) ''code''
                 \<or> js_includes (toLowerCase (getCurrentApp w)) ''vscode''
                 \<or> js_includes (toLowerCase (getCurrentApp w)) ''cursor''
              then
                (case (if js_includes (toLowerCase (getCurrentApp w)) ''cursor''
                       then Inr (Cursor_getWorkspace w) else VSCode_getWorkspace w) of
                   Inl e \<Rightarrow> None
                 | Inr freshWorkspace \<Rightarrow>
                     if truthy_string freshWorkspace
                     then executeAction (saveWorkspace w (getCurrentApp w) freshWorkspace) action
                     else Some (msg_workspace_unavailable, w))
              else Some (msg_workspace_unavailable, w))
           else Some (msg_workspace_unavailable, w))
      | Some workspace \<Rightarrow> Some (run_action w workspace action))"

section \<open>Example environments\<close>

text \<open>
  Concrete worlds on which the theorems below are instantiated: a POSIX \<open>path.join\<close>,
  a working copy at \<open>/home/u/proj\<close> and a handle whose answers are fixed.
\<close>

fun posix_join :: "string list \<Rightarrow> string" where
  "posix_join [] = ''.''"
| "posix_join [p] = p"
| "posix_join (p # ps) = p @ ''/'' @ posix_join ps"

definition example_status :: "string option \<Rightarrow> string list \<Rightarrow> StatusResult" where
  "example_status b new =
     \<lparr>current = b, created = new, deleted = [], modified = [], renamed = [], not_added = []\<rparr>"

definition example_git ::
    "StatusResult \<Rightarrow> RemoteWithRefs list \<Rightarrow> string list \<Rightarrow> string
       \<Rightarrow> (git_command \<Rightarrow> js_error option) \<Rightarrow> SimpleGit" where
  "example_git st remotes tracking count outcome =
     \<lparr>revparse = (\<lambda>h args.
        if args = [''--is-inside-work-tree''] then Inr ''true''
        else if length args = 2 \<and> args ! 1 \<in> set tracking then Inr ''4f2a9c1''
        else Inl (Error ''fatal: Needed a single revision'')),
      status = (\<lambda>h. Inr st),
      getRemotes = (\<lambda>h. Inr remotes),
      raw = (\<lambda>h args. Inr count),
      add = (\<lambda>h p. outcome (Add p)),
      commit = (\<lambda>h m. outcome (Commit m)),
      push = (\<lambda>h r b. outcome (Push r b))\<rparr>"

definition example_world :: "SimpleGit \<Rightarrow> world" where
  "example_world g =
     \<lparr>platform = ''linux'', homedir = ''/home/u'', APPDATA = None,
      path_join = posix_join,
      existsSync = (\<lambda>p. p = ''/home/u/proj'' \<or> p = ''/home/u/proj/.git''),
      readFileSync = (\<lambda>p. Inl (Error ''ENOENT'')),
      JSON_parse = (\<lambda>s. Inl (Error ''Unexpected token'')),
      sqlite_all = (\<lambda>p. Inl (Error ''SQLITE_CANTOPEN'')),
      cache_dir_exists = False, cache_mkdir_error = None, cache_file = None,
      cache_write_error = None,
      simpleGit = (\<lambda>p. if p = [] then Inl (Error ''no directory'') else Inr g),
      history = []\<rparr>"

definition remote :: "string \<Rightarrow> RemoteWithRefs" where
  "remote n = \<lparr>name = n, refs = (''git@example.org:u/proj.git'', ''git@example.org:u/proj.git'')\<rparr>"

definition example_service :: "SimpleGit \<Rightarrow> GitService" where
  "example_service g = \<lparr>git = Some g, workspacePath = ''/home/u/proj''\<rparr>"

definition all_succeed :: "git_command \<Rightarrow> js_error option" where
  "all_succeed c = None"

definition push_needs :: "string \<Rightarrow> git_command \<Rightarrow> js_error option" where
  "push_needs configured c =
     (case c of
        Push r b \<Rightarrow>
          if r = configured then None
          else Some (Error (''fatal: '' @ r @ '' does not appear to be a git repository''))
      | _ \<Rightarrow> None)"

definition push_offline :: "git_command \<Rightarrow> js_error option" where
  "push_offline c =
     (case c of
        Push r b \<Rightarrow> Some (Error ''fatal: unable to access the remote'')
      | _ \<Rightarrow> None)"

definition commit_rejected :: "git_command \<Rightarrow> js_error option" where
  "commit_rejected c =
     (case c of
        Commit m \<Rightarrow> Some (Error ''pre-commit hook failed'')
      | _ \<Rightarrow> None)"

definition example_handle :: SimpleGit where
  "example_handle =
     example_git (example_status (Some ''main'') [''notes.txt''])
       [remote ''upstream'', remote ''origin''] [''refs/remotes/upstream/main'']
       (decimal 3 @ [CHR 0x0A]) all_succeed"

definition example_repository :: world where
  "example_repository = example_world example_handle"

definition clean_handle :: SimpleGit where
  "clean_handle =
     example_git (example_status (Some ''main'') [])
       [remote ''origin''] [''refs/remotes/origin/main''] (decimal 0 @ [CHR 0x0A]) all_succeed"

definition local_handle :: SimpleGit where
  "local_handle =
     example_git (example_status (Some ''main'') [''notes.txt'']) [] [] [] all_succeed"

definition upstream_handle :: SimpleGit where
  "upstream_handle =
     example_git (example_status (Some ''main'') [''notes.txt''])
       [remote ''upstream''] [] [] (push_needs ''upstream'')"

definition offline_handle :: SimpleGit where
  "offline_handle =
     example_git (example_status (Some ''main'') [''notes.txt''])
       [remote ''origin''] [''refs/remotes/origin/main''] (decimal 0 @ [CHR 0x0A]) push_offline"

definition hook_handle :: SimpleGit where
  "hook_handle =
     example_git (example_status (Some ''main'') [''notes.txt''])
       [remote ''origin''] [''refs/remotes/origin/main''] (decimal 0 @ [CHR 0x0A])
       commit_rejected"

definition flaky_handle :: SimpleGit where
  "flaky_handle =
     local_handle\<lparr>getRemotes := (\<lambda>h. if h = [] then Inr [] else Inl (Error ''spawn git ENOENT''))\<rparr>"





text \<open>
  A Mac on which the storage files of both the stable and the Insiders build of VS Code
  exist.
\<close>

definition mac_world :: world where
  "mac_world =
     (example_world example_handle)
       \<lparr>platform := ''darwin'', homedir := ''/Users/u'',
        existsSync := (\<lambda>p.
          p = ''/Users/u/Library/Application Support/Code/storage.json''
          \<or> p = ''/Users/u/Library/Application Support/Code - Insiders/storage.json'')\<rparr>"

text \<open>
  A Linux machine on which Cursor's storage file names a folder that has been deleted,
  and the cache holds the current application but no workspace for it. The quotation
  marks of the JSON text are left out.
\<close>

definition stale_world :: world where
  "stale_world =
     (example_world example_handle)
       \<lparr>existsSync := (\<lambda>p. p = ''/home/u/.config/Cursor/storage.json''),
        readFileSync := (\<lambda>p.
          if p = ''/home/u/.config/Cursor/storage.json''
          then Inr ''{windowsState:{lastActiveWindow:{folder:file:///home/u/gone}}}''
          else Inl (Error ''ENOENT'')),
        JSON_parse := (\<lambda>s.
          if s = ''{windowsState:{lastActiveWindow:{folder:file:///home/u/gone}}}''
          then Inr (JObj [(''windowsState'',
                 JObj [(''lastActiveWindow'', JObj [(''folder'', JStr ''file:///home/u/gone'')])])])
          else Inl (Error ''Unexpected token'')),
        cache_dir_exists := True,
        cache_file := Some (CacheData [(''_current_app_'', Some ''Cursor'')])\<rparr>"

section \<open>Properties of path normalisation\<close>

lemma decodeURIComponent_no_percent:
  "CHR ''%'' \<notin> set s \<Longrightarrow> decodeURIComponent s = Inr s"
  by (induction s) (auto simp: prepend_def)

lemma continuation_octets_length:
  "continuation_octets j s = Some bs \<Longrightarrow> length bs = j"
proof (induction j s arbitrary: bs rule: continuation_octets.induct)
  case (1 s)
  then show ?case by simp
next
  case (2 j)
  then show ?case by simp
next
  case (3 j c rest)
  then show ?case
    by (auto split: if_splits option.splits)
qed

lemma ParseHexOctet_length:
  "ParseHexOctet cs = Some B \<Longrightarrow> 2 \<le> length cs"
  by (cases cs rule: ParseHexOctet.cases) simp_all

lemma continuation_octets_input_length:
  "continuation_octets j s = Some bs \<Longrightarrow> 3 * j \<le> length s"
proof (induction j s arbitrary: bs rule: continuation_octets.induct)
  case (1 s)
  then show ?case by simp
next
  case (2 j)
  then show ?case by simp
next
  case (3 j c rest)
  from "3.prems" obtain b bs' where
    c: "c = CHR ''%''" and b: "ParseHexOctet rest = Some b"
    and bs': "continuation_octets j (drop 2 rest) = Some bs'"
    by (auto split: if_splits option.splits)
  from "3.IH" [OF _ b bs'] c have "3 * j \<le> length (drop 2 rest)" by simp
  moreover from b have "2 \<le> length rest" by (rule ParseHexOctet_length)
  ultimately show ?case by simp
qed

lemma decodeURIComponent_shrinks:
  "decodeURIComponent s = Inr t \<Longrightarrow>
     length t \<le> length s \<and> (CHR ''%'' \<in> set s \<longrightarrow> length t < length s)"
proof (induction s arbitrary: t rule: decodeURIComponent.induct)
  case 1
  then show ?case by simp
next
  case (2 c cs)
  show ?case
  proof (cases "c = CHR ''%''")
    case False
    with "2.prems" obtain t' where t': "decodeURIComponent cs = Inr t'" and t: "t = c # t'"
      by (auto simp: prepend_def split: sum.splits)
    from "2.IH"(1) [OF False t'] False t show ?thesis by auto
  next
    case True
    with "2.prems" obtain B where B: "ParseHexOctet cs = Some B"
      by (auto split: option.splits)
    from B have len: "2 \<le> length cs" by (rule ParseHexOctet_length)
    show ?thesis
    proof (cases "leading_ones B = 0")
      case n0: True
      with "2.prems" True B obtain t' where
        t': "decodeURIComponent (drop 2 cs) = Inr t'" and t: "t = char_of B # t'"
        by (auto simp: prepend_def split: sum.splits)
      from "2.IH"(2) [OF _ B n0 t'] True have "length t' \<le> length (drop 2 cs)" by simp
      with t len True show ?thesis by (simp, arith)
    next
      case n0: False
      with "2.prems" True B have n14: "\<not> (leading_ones B = 1 \<or> 4 < leading_ones B)"
        by (auto split: if_splits)
      with "2.prems" True B n0 obtain bs where
        bs: "continuation_octets (leading_ones B - 1) (drop 2 cs) = Some bs"
        by (auto split: option.splits)
      with "2.prems" True B n0 n14 have v: "valid_utf8 (B # bs)"
        by (auto split: if_splits)
      with "2.prems" True B n0 n14 bs obtain t' where
        t': "decodeURIComponent (drop (2 + 3 * (leading_ones B - 1)) cs) = Inr t'"
        and t: "t = map char_of (B # bs) @ t'"
        by (auto simp: prepend_def split: sum.splits)
      from "2.IH"(3) [OF _ B n0 n14 bs v t'] True
      have "length t' \<le> length (drop (2 + 3 * (leading_ones B - 1)) cs)" by simp
      moreover from bs have "length bs = leading_ones B - 1"
        by (rule continuation_octets_length)
      moreover from bs have "3 * (leading_ones B - 1) \<le> length (drop 2 cs)"
        by (rule continuation_octets_input_length)
      ultimately show ?thesis using t len True n0 by auto
    qed
  qed
qed

lemma strip_file_scheme_length:
  "length (strip_file_scheme s) \<le> length s"
  by (simp add: strip_file_scheme_def)

lemma strip_file_scheme_shorter:
  "prefix ''file://'' s \<Longrightarrow> length (strip_file_scheme s) < length s"
  by (auto simp: strip_file_scheme_def prefix_def)

lemma cleanWorkspacePath_fixed_point:
  "cleanWorkspacePath t = t \<longleftrightarrow>
     \<not> prefix ''file://'' t \<and> (isl (decodeURIComponent t) \<or> CHR ''%'' \<notin> set t)"
proof
  assume fp: "cleanWorkspacePath t = t"
  have no_prefix: "\<not> prefix ''file://'' t"
  proof
    assume "prefix ''file://'' t"
    then have short: "length (strip_file_scheme t) < length t"
      by (rule strip_file_scheme_shorter)
    have "length (cleanWorkspacePath t) \<le> length (strip_file_scheme t)"
      using decodeURIComponent_shrinks [of "strip_file_scheme t"]
      by (auto simp: cleanWorkspacePath_def Let_def split: sum.splits)
    with short fp show False by simp
  qed
  then have strip: "strip_file_scheme t = t" by (simp add: strip_file_scheme_def)
  have "isl (decodeURIComponent t) \<or> CHR ''%'' \<notin> set t"
  proof (cases "decodeURIComponent t")
    case (Inl e)
    then show ?thesis by simp
  next
    case (Inr d)
    with fp strip have "d = t" by (simp add: cleanWorkspacePath_def)
    with Inr decodeURIComponent_shrinks [of t t] show ?thesis by auto
  qed
  with no_prefix show "\<not> prefix ''file://'' t \<and> (isl (decodeURIComponent t) \<or> CHR ''%'' \<notin> set t)"
    by simp
next
  assume h: "\<not> prefix ''file://'' t \<and> (isl (decodeURIComponent t) \<or> CHR ''%'' \<notin> set t)"
  then have strip: "strip_file_scheme t = t" by (simp add: strip_file_scheme_def)
  from h show "cleanWorkspacePath t = t"
  proof (cases "decodeURIComponent t")
    case (Inl e)
    with strip show ?thesis by (simp add: cleanWorkspacePath_def)
  next
    case (Inr d)
    with h have "CHR ''%'' \<notin> set t" by simp
    then have "decodeURIComponent t = Inr t" by (rule decodeURIComponent_no_percent)
    with strip show ?thesis by (simp add: cleanWorkspacePath_def)
  qed
qed

lemma WorkspaceCache_cleanWorkspacePath_Some:
  "ws \<noteq> [] \<Longrightarrow> WorkspaceCache_cleanWorkspacePath (Some ws) = Some (cleanWorkspacePath ws)"
  by (simp add: WorkspaceCache_cleanWorkspacePath_def cleanWorkspacePath_def Let_def
      split: sum.splits)

text \<open>
  C3 (amended). Normalisation is idempotent at \<open>s\<close> exactly when the normalised path
  does not start with \<open>file://\<close> and either contains no percent sign or cannot be
  percent-decoded; the cache's copy needs in addition that the normalised path is not
  empty. In particular a normalised path without \<open>file://\<close> prefix and percent sign is
  returned unchanged.
\<close>

theorem cleanWorkspacePath_idempotent_iff:
  "(cleanWorkspacePath (cleanWorkspacePath s) = cleanWorkspacePath s \<longleftrightarrow>
      \<not> prefix ''file://'' (cleanWorkspacePath s)
      \<and> (isl (decodeURIComponent (cleanWorkspacePath s))
         \<or> CHR ''%'' \<notin> set (cleanWorkspacePath s)))
   \<and> (WorkspaceCache_cleanWorkspacePath (WorkspaceCache_cleanWorkspacePath x)
        = WorkspaceCache_cleanWorkspacePath x \<longleftrightarrow>
      (case WorkspaceCache_cleanWorkspacePath x of
         None \<Rightarrow> True
       | Some t \<Rightarrow>
           t \<noteq> [] \<and> \<not> prefix ''file://'' t
           \<and> (isl (decodeURIComponent t) \<or> CHR ''%'' \<notin> set t)))"
proof
  show "cleanWorkspacePath (cleanWorkspacePath s) = cleanWorkspacePath s \<longleftrightarrow>
      \<not> prefix ''file://'' (cleanWorkspacePath s)
      \<and> (isl (decodeURIComponent (cleanWorkspacePath s))
         \<or> CHR ''%'' \<notin> set (cleanWorkspacePath s))"
    by (rule cleanWorkspacePath_fixed_point)
next
  show "WorkspaceCache_cleanWorkspacePath (WorkspaceCache_cleanWorkspacePath x)
        = WorkspaceCache_cleanWorkspacePath x \<longleftrightarrow>
      (case WorkspaceCache_cleanWorkspacePath x of
         None \<Rightarrow> True
       | Some t \<Rightarrow>
           t \<noteq> [] \<and> \<not> prefix ''file://'' t
           \<and> (isl (decodeURIComponent t) \<or> CHR ''%'' \<notin> set t))"
  proof (cases "WorkspaceCache_cleanWorkspacePath x")
    case None
    then show ?thesis by (simp add: WorkspaceCache_cleanWorkspacePath_def)
  next
    case (Some t)
    show ?thesis
    proof (cases "t = []")
      case True
      with Some show ?thesis by (simp add: WorkspaceCache_cleanWorkspacePath_def)
    next
      case False
      with Some cleanWorkspacePath_fixed_point [of t] show ?thesis
        by (simp add: WorkspaceCache_cleanWorkspacePath_Some)
    qed
  qed
qed

theorem cleanWorkspacePath_idempotent_iff_witness:
  "cleanWorkspacePath ''file:///home/u/my%20repo'' = ''/home/u/my repo''
   \<and> cleanWorkspacePath (cleanWorkspacePath ''file:///home/u/my%20repo'')
     = cleanWorkspacePath ''file:///home/u/my%20repo''
   \<and> WorkspaceCache_cleanWorkspacePath
       (WorkspaceCache_cleanWorkspacePath (Some ''file:///home/u/my%20repo''))
     = WorkspaceCache_cleanWorkspacePath (Some ''file:///home/u/my%20repo'')"
proof -
  have c: "cleanWorkspacePath ''file:///home/u/my%20repo'' = ''/home/u/my repo''"
    by code_simp
  have wc: "WorkspaceCache_cleanWorkspacePath (Some ''file:///home/u/my%20repo'')
      = Some ''/home/u/my repo''"
    by code_simp
  from cleanWorkspacePath_idempotent_iff
         [of "''file:///home/u/my%20repo''" "Some ''file:///home/u/my%20repo''"]
  show ?thesis by (simp add: c wc)
qed

text \<open>
  C3 as stated fails: the URI of a folder named \<open>100%25\<close> normalises to the folder's
  path \<open>/tmp/100%25\<close>, and normalising that path again decodes it once more, to
  \<open>/tmp/100%\<close>.
\<close>

theorem cleanWorkspacePath_not_idempotent:
  "cleanWorkspacePath (cleanWorkspacePath ''file:///tmp/100%2525'')
     \<noteq> cleanWorkspacePath ''file:///tmp/100%2525''"
  by code_simp

section \<open>Properties of the number helpers\<close>

lemma is_digit_decimal: "c \<in> set (decimal n) \<Longrightarrow> is_digit c"
proof (induction n arbitrary: c rule: decimal.induct)
  case (1 n)
  show ?case
  proof (cases "n < 10")
    case True
    with "1.prems" show ?thesis
      by (simp add: decimal.simps [of n] is_digit_def)
  next
    case False
    with "1.prems" have "c \<in> set (decimal (n div 10)) \<or> c = char_of (48 + n mod 10)"
      by (auto simp: decimal.simps [of n])
    then show ?thesis
    proof
      assume "c \<in> set (decimal (n div 10))"
      with "1.IH" False show ?thesis by simp
    next
      assume "c = char_of (48 + n mod 10)"
      moreover have "n mod 10 < 10" by simp
      ultimately show ?thesis by (simp add: is_digit_def)
    qed
  qed
qed

lemma decimal_not_empty: "decimal n \<noteq> []"
  by (simp add: decimal.simps [of n])

lemma digit_not_space: "is_digit c \<Longrightarrow> \<not> is_space c"
  by (auto simp: is_digit_def is_space_def)

lemma digits_value_snoc: "digits_value (ds @ [c]) = 10 * digits_value ds + (of_char c - 48)"
  by (simp add: digits_value_def)

lemma digits_value_decimal: "digits_value (decimal n) = n"
proof (induction n rule: decimal.induct)
  case (1 n)
  show ?case
  proof (cases "n < 10")
    case True
    then show ?thesis by (simp add: decimal.simps [of n] digits_value_def)
  next
    case False
    have "n mod 10 < 10" by simp
    then have "(48 + n mod 10) mod 256 = 48 + n mod 10" by simp
    with False "1.IH" show ?thesis
      by (simp add: decimal.simps [of n] digits_value_snoc)
  qed
qed

lemma trim_digits_newline:
  assumes "ds \<noteq> []" and "\<And>c. c \<in> set ds \<Longrightarrow> is_digit c"
  shows "trim (ds @ [CHR 0x0A]) = ds"
proof -
  from assms have h: "\<not> is_space (hd ds)" and l: "\<not> is_space (last ds)"
    by (simp_all add: digit_not_space)
  from assms(1) h have 1: "dropWhile is_space (ds @ [CHR 0x0A]) = ds @ [CHR 0x0A]"
    by (cases ds) simp_all
  have nl: "is_space (CHR 0x0A)" by (simp add: is_space_def)
  from assms(1) l have 2: "dropWhile is_space (rev ds) = rev ds"
    by (cases ds rule: rev_cases) simp_all
  show ?thesis by (simp add: trim_def 1 nl 2)
qed

lemma parseInt_digits:
  assumes "ds \<noteq> []" and "\<And>c. c \<in> set ds \<Longrightarrow> is_digit c"
  shows "parseInt ds = Some (int (digits_value ds))"
proof -
  from assms have d: "is_digit (hd ds)" by simp
  then have h: "\<not> is_space (hd ds)" by (rule digit_not_space)
  from assms(1) h have 1: "dropWhile is_space ds = ds" by (cases ds) simp_all
  from d have s: "hd ds \<noteq> CHR ''+''" "hd ds \<noteq> CHR ''-''"
    by (auto simp: is_digit_def)
  from assms(2) have 2: "takeWhile is_digit ds = ds" by (simp add: takeWhile_eq_all_conv)
  show ?thesis using assms(1) by (simp add: parseInt_def 1 s 2)
qed

lemma parseInt_count_output:
  "parseInt (trim (decimal n @ [CHR 0x0A])) = Some (int n)"
  by (simp add: trim_digits_newline parseInt_digits is_digit_decimal decimal_not_empty
      digits_value_decimal)

section \<open>Properties of GitService\<close>

text \<open>Facts about the example worlds, for the instances below.\<close>

lemma isGitRepository_example:
  "revparse g [] [''--is-inside-work-tree''] = Inr out \<Longrightarrow>
   isGitRepository (example_service g) (example_world g)"
  by (simp add: isGitRepository_def example_service_def example_world_def)


lemma example_history [simp]: "history (example_world g) = []"
  by (simp add: example_world_def)

lemma example_git_handle [simp]: "git (example_service g) = Some g"
  by (simp add: example_service_def)

lemma example_git_answers [simp]:
  "status (example_git st rs tr cnt outc) h = Inr st"
  "getRemotes (example_git st rs tr cnt outc) h = Inr rs"
  "revparse (example_git st rs tr cnt outc) h [''--is-inside-work-tree''] = Inr ''true''"
  "add (example_git st rs tr cnt outc) h p = outc (Add p)"
  "commit (example_git st rs tr cnt outc) h m = outc (Commit m)"
  "push (example_git st rs tr cnt outc) h r b = outc (Push r b)"
  by (simp_all add: example_git_def)

text \<open>
  C10. When the service is constructed with an empty workspace path, or the construction
  of the \<open>simple-git\<close> handle throws, every later operation returns its safe default
  in every world: \<open>isGitRepository\<close> is false, \<open>getStatus\<close> is the zeroed summary,
  \<open>getChangesDescription\<close> is the empty string and \<open>commitAndPush\<close> fails with the
  fixed not-initialised message and runs no command.
\<close>

theorem uninitialised_service_safe_defaults:
  assumes "path = [] \<or> isl (simpleGit w0 (cleanWorkspacePath path))"
  shows "isGitRepository (new_GitService w0 path) w = False
       \<and> getStatus (new_GitService w0 path) w =
           \<lparr>isRepo = False, branch = [], changedFilesCount = 0, hasChanges = False,
            hasUnpushedCommits = False\<rparr>
       \<and> getChangesDescription (new_GitService w0 path) w = []
       \<and> commitAndPush (new_GitService w0 path) w =
           (\<lparr>success = False, message = msg_not_initialized\<rparr>, w)"
proof -
  from assms have "git (new_GitService w0 path) = None"
    by (auto simp: new_GitService_def Let_def isl_def)
  then show ?thesis
    by (simp add: isGitRepository_def getStatus_def defaultStatus_def
        getChangesDescription_def commitAndPush_def)
qed

theorem uninitialised_service_safe_defaults_witness:
  "isGitRepository (new_GitService example_repository []) example_repository = False
   \<and> getStatus (new_GitService example_repository ''file://'') example_repository =
       \<lparr>isRepo = False, branch = [], changedFilesCount = 0, hasChanges = False,
        hasUnpushedCommits = False\<rparr>
   \<and> getChangesDescription (new_GitService example_repository ''file://'') example_repository = []
   \<and> commitAndPush (new_GitService example_repository ''file://'') example_repository =
       (\<lparr>success = False, message = msg_not_initialized\<rparr>, example_repository)"
proof -
  have "isl (simpleGit example_repository (cleanWorkspacePath ''file://''))"
    by code_simp
  then have b: "''file://'' = [] \<or> isl (simpleGit example_repository (cleanWorkspacePath ''file://''))"
    by simp
  have a: "([]::string) = [] \<or> isl (simpleGit example_repository (cleanWorkspacePath []))"
    by simp
  from uninitialised_service_safe_defaults [OF a, of example_repository]
    uninitialised_service_safe_defaults [OF b, of example_repository]
  show ?thesis by simp
qed

text \<open>
  C1. The unpushed-commit determination, for a service with a handle on a repository
  whose status and remotes can be read: false when there is no current branch or no
  remote; otherwise, with the first remote, true when \<open>rev-parse --verify\<close> of the
  remote-tracking ref throws (the ref does not exist); and when the ref exists, true
  exactly when the count \<open>n\<close> that \<open>rev-list --count remote/branch..branch\<close> prints
  is positive.
\<close>

theorem hasUnpushedCommits_determination:
  assumes "git svc = Some g"
    and "status g (history w) = Inr st"
    and "getRemotes g (history w) = Inr remotes"
    and "or_empty (current st) \<noteq> [] \<and> remotes \<noteq> []
         \<and> \<not> isl (revparse g (history w)
                 [''--verify'', ''refs/remotes/'' @ name (hd remotes) @ ''/'' @ or_empty (current st)])
         \<longrightarrow> raw g (history w)
               [''rev-list'', ''--count'',
                name (hd remotes) @ ''/'' @ or_empty (current st) @ ''..'' @ or_empty (current st)]
             = Inr (decimal n @ [CHR 0x0A])"
  shows "GitService_hasUnpushedCommits svc w =
           (if or_empty (current st) = [] \<or> remotes = [] then False
            else if isl (revparse g (history w)
                   [''--verify'', ''refs/remotes/'' @ name (hd remotes) @ ''/'' @ or_empty (current st)])
            then True
            else 0 < n)"
  using assms
  by (auto simp: GitService_hasUnpushedCommits_def Let_def parseInt_count_output
      split: sum.splits)


theorem hasUnpushedCommits_determination_witness:
  "status example_handle (history example_repository)
     = Inr (example_status (Some ''main'') [''notes.txt''])
   \<and> getRemotes example_handle (history example_repository)
     = Inr [remote ''upstream'', remote ''origin'']
   \<and> \<not> isl (revparse example_handle (history example_repository)
             [''--verify'', ''refs/remotes/upstream/main''])
   \<and> raw example_handle (history example_repository)
        [''rev-list'', ''--count'', ''upstream/main..main''] = Inr (decimal 3 @ [CHR 0x0A])
   \<and> GitService_hasUnpushedCommits (example_service example_handle) example_repository = True"
proof -
  have g: "git (example_service example_handle) = Some example_handle"
    by (simp add: example_service_def)
  have st: "status example_handle (history example_repository)
      = Inr (example_status (Some ''main'') [''notes.txt''])"
    by (simp add: example_handle_def example_git_def)
  have rs: "getRemotes example_handle (history example_repository)
      = Inr [remote ''upstream'', remote ''origin'']"
    by (simp add: example_handle_def example_git_def)
  have rp: "\<not> isl (revparse example_handle (history example_repository)
             [''--verify'', ''refs/remotes/upstream/main''])"
    by (simp add: example_handle_def example_git_def)
  have cnt: "raw example_handle (history example_repository)
        [''rev-list'', ''--count'', ''upstream/main..main''] = Inr (decimal 3 @ [CHR 0x0A])"
    by (simp add: example_handle_def example_git_def)
  have nm: "name (remote ''upstream'') = ''upstream''"
    and br: "or_empty (current (example_status (Some ''main'') [''notes.txt''])) = ''main''"
    by (simp_all add: remote_def or_empty_def example_status_def)
  from cnt have h: "or_empty (current (example_status (Some ''main'') [''notes.txt''])) \<noteq> []
      \<and> [remote ''upstream'', remote ''origin''] \<noteq> []
      \<and> \<not> isl (revparse example_handle (history example_repository)
              [''--verify'', ''refs/remotes/''
                 @ name (hd [remote ''upstream'', remote ''origin'']) @ ''/''
                 @ or_empty (current (example_status (Some ''main'') [''notes.txt'']))])
      \<longrightarrow> raw example_handle (history example_repository)
            [''rev-list'', ''--count'',
             name (hd [remote ''upstream'', remote ''origin'']) @ ''/''
               @ or_empty (current (example_status (Some ''main'') [''notes.txt'']))
               @ ''..'' @ or_empty (current (example_status (Some ''main'') [''notes.txt'']))]
          = Inr (decimal 3 @ [CHR 0x0A])"
    by (simp add: nm br)
  from hasUnpushedCommits_determination [OF g st rs h] rp
  have "GitService_hasUnpushedCommits (example_service example_handle) example_repository = True"
    by (simp add: nm br)
  with st rs rp cnt show ?thesis by simp
qed


text \<open>
  C5. On a repository whose status reports zero changed files \<open>commitAndPush\<close> returns
  \<open>success = false\<close> (with the nothing-to-commit message when the directory is a
  repository) and runs no command: the world, and with it the list of commits, is
  unchanged.
\<close>

theorem commitAndPush_nothing_to_commit:
  assumes "git svc = Some g"
    and "status g (history w) = Inr st"
    and "count_changed st = 0"
  shows "commitAndPush svc w =
           (\<lparr>success = False,
             message = (if isGitRepository svc w then msg_nothing_to_commit
                        else msg_not_repository)\<rparr>, w)
       \<and> commits_created (snd (commitAndPush svc w)) = commits_created w"
  using assms by (simp add: commitAndPush_def commitAndPush_body_def)


theorem commitAndPush_nothing_to_commit_witness:
  "status clean_handle (history (example_world clean_handle))
     = Inr (example_status (Some ''main'') [])
   \<and> count_changed (example_status (Some ''main'') []) = 0
   \<and> commitAndPush (example_service clean_handle) (example_world clean_handle)
     = (\<lparr>success = False, message = msg_nothing_to_commit\<rparr>, example_world clean_handle)"
proof -
  have st: "status clean_handle (history (example_world clean_handle))
      = Inr (example_status (Some ''main'') [])"
    by (simp add: clean_handle_def)
  have c: "count_changed (example_status (Some ''main'') []) = 0"
    by (simp add: count_changed_def example_status_def)
  have r: "isGitRepository (example_service clean_handle) (example_world clean_handle)"
    by (rule isGitRepository_example) (simp add: clean_handle_def)
  from commitAndPush_nothing_to_commit [OF example_git_handle st c] r st c
  show ?thesis by simp
qed






text \<open>
  C7. When a step after staging throws an error \<open>e\<close> (the commit, the listing of the
  remotes, or the push after a commit that succeeded), no later step runs and the result
  is \<open>success = false\<close> with the failure prefix followed by the text of \<open>e\<close> (the
  fixed unknown-error text when \<open>e\<close> has none); a commit already created stays in the
  history, which ends with the command that failed.
\<close>

theorem commitAndPush_failure_after_staging:
  assumes "git svc = Some g"
    and "isGitRepository svc w"
    and "status g (history w) = Inr st"
    and "0 < count_changed st"
    and "msg = txt_auto_commit @ getChangesDescription svc w @ '' [GitOK]''"
    and "add g (history w) ''.'' = None"
    and "h1 = history w @ [(Add ''.'', None)]"
    and "h2 = h1 @ [(Commit msg, None)]"
    and "failure = \<lparr>success = False,
           message = txt_failed @ (if message_of e = [] then txt_unknown_error else message_of e)\<rparr>"
  shows "(commit g h1 msg = Some e \<longrightarrow>
            commitAndPush svc w = (failure, w\<lparr>history := h1 @ [(Commit msg, Some e)]\<rparr>))
       \<and> (commit g h1 msg = None \<and> getRemotes g h2 = Inl e \<longrightarrow>
            commitAndPush svc w = (failure, w\<lparr>history := h2\<rparr>))
       \<and> (commit g h1 msg = None \<and> getRemotes g h2 = Inr remotes \<and> remotes \<noteq> []
            \<and> or_empty (current st) \<noteq> []
            \<and> push g h2 ''origin'' (or_empty (current st)) = Some e \<longrightarrow>
            commitAndPush svc w =
              (failure, w\<lparr>history := h2 @ [(Push ''origin'' (or_empty (current st)), Some e)]\<rparr>)
            \<and> commits_created (snd (commitAndPush svc w)) = commits_created w @ [msg])"
  using assms
  by (simp add: commitAndPush_def commitAndPush_body_def commitMessage_of_def Let_def
      record_event_def commits_created_def error_text_def)

theorem commitAndPush_failure_after_staging_witness:
  "commitAndPush (example_service hook_handle) (example_world hook_handle)
     = (\<lparr>success = False, message = txt_failed @ ''pre-commit hook failed''\<rparr>,
        (example_world hook_handle)
          \<lparr>history :=
             [(Add ''.'', None),
              (Commit (txt_auto_commit
                       @ getChangesDescription (example_service hook_handle) (example_world hook_handle)
                       @ '' [GitOK]''), Some (Error ''pre-commit hook failed''))]\<rparr>)
   \<and> commitAndPush (example_service flaky_handle) (example_world flaky_handle)
     = (\<lparr>success = False, message = txt_failed @ ''spawn git ENOENT''\<rparr>,
        (example_world flaky_handle)
          \<lparr>history :=
             [(Add ''.'', None),
              (Commit (txt_auto_commit
                       @ getChangesDescription (example_service flaky_handle) (example_world flaky_handle)
                       @ '' [GitOK]''), None)]\<rparr>)
   \<and> commitAndPush (example_service offline_handle) (example_world offline_handle)
     = (\<lparr>success = False, message = txt_failed @ ''fatal: unable to access the remote''\<rparr>,
        (example_world offline_handle)
          \<lparr>history :=
             [(Add ''.'', None),
              (Commit (txt_auto_commit
                       @ getChangesDescription (example_service offline_handle) (example_world offline_handle)
                       @ '' [GitOK]''), None),
              (Push ''origin'' ''main'', Some (Error ''fatal: unable to access the remote''))]\<rparr>)
   \<and> commits_created (snd (commitAndPush (example_service offline_handle) (example_world offline_handle)))
     = [txt_auto_commit
        @ getChangesDescription (example_service offline_handle) (example_world offline_handle)
        @ '' [GitOK]'']"
proof -
  have c: "0 < count_changed (example_status (Some ''main'') [''notes.txt''])"
    by (simp add: count_changed_def example_status_def)
  have br: "or_empty (current (example_status (Some ''main'') [''notes.txt''])) = ''main''"
    by (simp add: or_empty_def example_status_def)
  have 1: "commitAndPush (example_service hook_handle) (example_world hook_handle)
     = (\<lparr>success = False, message = txt_failed @ ''pre-commit hook failed''\<rparr>,
        (example_world hook_handle)
          \<lparr>history :=
             [(Add ''.'', None),
              (Commit (txt_auto_commit
                       @ getChangesDescription (example_service hook_handle) (example_world hook_handle)
                       @ '' [GitOK]''), Some (Error ''pre-commit hook failed''))]\<rparr>)"
  proof -
    let ?w = "example_world hook_handle" and ?svc = "example_service hook_handle"
    have r: "isGitRepository ?svc ?w"
      by (rule isGitRepository_example) (simp add: hook_handle_def)
    have st: "status hook_handle (history ?w) = Inr (example_status (Some ''main'') [''notes.txt''])"
      by (simp add: hook_handle_def)
    have a: "add hook_handle (history ?w) ''.'' = None"
      by (simp add: hook_handle_def commit_rejected_def)
    from commitAndPush_failure_after_staging
           [OF example_git_handle r st c refl a refl refl refl,
            of "Error ''pre-commit hook failed''" "[]"]
    show ?thesis by (simp add: hook_handle_def commit_rejected_def)
  qed
  have 2: "commitAndPush (example_service flaky_handle) (example_world flaky_handle)
     = (\<lparr>success = False, message = txt_failed @ ''spawn git ENOENT''\<rparr>,
        (example_world flaky_handle)
          \<lparr>history :=
             [(Add ''.'', None),
              (Commit (txt_auto_commit
                       @ getChangesDescription (example_service flaky_handle) (example_world flaky_handle)
                       @ '' [GitOK]''), None)]\<rparr>)"
  proof -
    let ?w = "example_world flaky_handle" and ?svc = "example_service flaky_handle"
    have r: "isGitRepository ?svc ?w"
      by (rule isGitRepository_example) (simp add: flaky_handle_def local_handle_def)
    have st: "status flaky_handle (history ?w) = Inr (example_status (Some ''main'') [''notes.txt''])"
      by (simp add: flaky_handle_def local_handle_def)
    have a: "add flaky_handle (history ?w) ''.'' = None"
      by (simp add: flaky_handle_def local_handle_def all_succeed_def)
    from commitAndPush_failure_after_staging
           [OF example_git_handle r st c refl a refl refl refl,
            of "Error ''spawn git ENOENT''" "[]"]
    show ?thesis by (simp add: flaky_handle_def local_handle_def all_succeed_def)
  qed
  have 3: "commitAndPush (example_service offline_handle) (example_world offline_handle)
     = (\<lparr>success = False, message = txt_failed @ ''fatal: unable to access the remote''\<rparr>,
        (example_world offline_handle)
          \<lparr>history :=
             [(Add ''.'', None),
              (Commit (txt_auto_commit
                       @ getChangesDescription (example_service offline_handle) (example_world offline_handle)
                       @ '' [GitOK]''), None),
              (Push ''origin'' ''main'', Some (Error ''fatal: unable to access the remote''))]\<rparr>)
   \<and> commits_created (snd (commitAndPush (example_service offline_handle) (example_world offline_handle)))
     = [txt_auto_commit
        @ getChangesDescription (example_service offline_handle) (example_world offline_handle)
        @ '' [GitOK]'']"
  proof -
    let ?w = "example_world offline_handle" and ?svc = "example_service offline_handle"
    have r: "isGitRepository ?svc ?w"
      by (rule isGitRepository_example) (simp add: offline_handle_def)
    have st: "status offline_handle (history ?w) = Inr (example_status (Some ''main'') [''notes.txt''])"
      by (simp add: offline_handle_def)
    have a: "add offline_handle (history ?w) ''.'' = None"
      by (simp add: offline_handle_def push_offline_def)
    have e: "commits_created ?w = []"
      by (simp add: commits_created_def)
    let ?msg = "txt_auto_commit @ getChangesDescription ?svc ?w @ '' [GitOK]''"
    let ?h2 = "(history ?w @ [(Add ''.'', None)]) @ [(Commit ?msg, None)]"
    let ?e = "Error ''fatal: unable to access the remote''"
    have cm: "commit offline_handle (history ?w @ [(Add ''.'', None)]) ?msg = None"
      by (simp add: offline_handle_def push_offline_def)
    have rs: "getRemotes offline_handle ?h2 = Inr [remote ''origin'']"
      by (simp add: offline_handle_def)
    have pu: "push offline_handle ?h2 ''origin''
        (or_empty (current (example_status (Some ''main'') [''notes.txt'']))) = Some ?e"
      by (simp add: offline_handle_def push_offline_def)
    have ne: "[remote ''origin''] \<noteq> []"
      "or_empty (current (example_status (Some ''main'') [''notes.txt''])) \<noteq> []"
      by (simp_all add: br)
    from commitAndPush_failure_after_staging
           [OF example_git_handle r st c refl a refl refl refl,
            of ?e "[remote ''origin'']"] cm rs pu ne
    have t: "commitAndPush ?svc ?w =
        (\<lparr>success = False,
          message = txt_failed @ (if message_of ?e = [] then txt_unknown_error else message_of ?e)\<rparr>,
         ?w\<lparr>history := ?h2 @ [(Push ''origin''
              (or_empty (current (example_status (Some ''main'') [''notes.txt'']))), Some ?e)]\<rparr>)
      \<and> commits_created (snd (commitAndPush ?svc ?w)) = commits_created ?w @ [?msg]"
      by blast
    from t [THEN conjunct1] have t1: "commitAndPush ?svc ?w =
        (\<lparr>success = False, message = txt_failed @ ''fatal: unable to access the remote''\<rparr>,
         ?w\<lparr>history := [(Add ''.'', None), (Commit ?msg, None), (Push ''origin'' ''main'', Some ?e)]\<rparr>)"
      by (simp add: br)
    from t [THEN conjunct2] e have t2: "commits_created (snd (commitAndPush ?svc ?w)) = [?msg]"
      by simp
    from t1 t2 show ?thesis by blast
  qed
  from 1 2 3 show ?thesis by blast
qed

text \<open>
  Every push that \<open>commitAndPush\<close> adds to the history names the remote \<open>origin\<close>:
  the list of remotes is only tested for emptiness.
\<close>

lemma commitAndPush_push_target:
  assumes "(Push r b, outcome) \<in> set (history (snd (commitAndPush svc w)))"
    and "(Push r b, outcome) \<notin> set (history w)"
  shows "r = ''origin''"
  using assms
  by (auto simp: commitAndPush_def commitAndPush_body_def record_event_def Let_def
      split: option.splits sum.splits if_splits)

text \<open>
  C2 does not hold of the code. In a repository with changes, the current branch
  \<open>main\<close> and the single remote \<open>upstream\<close>, the push step is reached and pushes to
  \<open>origin\<close>, not to the first configured remote \<open>upstream\<close>; the push fails and the
  result reports the failure after the commit was created.
\<close>

theorem commitAndPush_pushes_to_origin:
  "getRemotes upstream_handle
       [(Add ''.'', None),
        (Commit (txt_auto_commit
                 @ getChangesDescription (example_service upstream_handle) (example_world upstream_handle)
                 @ '' [GitOK]''), None)] = Inr [remote ''upstream'']
   \<and> name (hd [remote ''upstream'']) = ''upstream''
   \<and> commitAndPush (example_service upstream_handle) (example_world upstream_handle)
     = (\<lparr>success = False,
         message = txt_failed @ ''fatal: origin does not appear to be a git repository''\<rparr>,
        (example_world upstream_handle)
          \<lparr>history :=
             [(Add ''.'', None),
              (Commit (txt_auto_commit
                       @ getChangesDescription (example_service upstream_handle) (example_world upstream_handle)
                       @ '' [GitOK]''), None),
              (Push ''origin'' ''main'',
               Some (Error ''fatal: origin does not appear to be a git repository''))]\<rparr>)"
proof -
  let ?w = "example_world upstream_handle" and ?svc = "example_service upstream_handle"
  have r: "isGitRepository ?svc ?w"
    by (rule isGitRepository_example) (simp add: upstream_handle_def)
  then show ?thesis
    by (simp add: commitAndPush_def commitAndPush_body_def upstream_handle_def
        example_status_def count_changed_def or_empty_def push_needs_def remote_def
        record_event_def commitMessage_of_def error_text_def Let_def)
qed

section \<open>Properties of WorkspaceCache\<close>

lemma saveWorkspace_cache_file:
  assumes "cache_dir_exists w \<or> cache_mkdir_error w = None"
    and "cache_write_error w = None"
    and "read_cacheData w = Inr cacheData"
  shows "cache_file (saveWorkspace w appId workspace)
           = Some (CacheData (set_property appId (WorkspaceCache_cleanWorkspacePath workspace) cacheData))"
  using assms
  by (auto simp: saveWorkspace_def ensure_cache_dir_def read_cacheData_def write_cacheData_def
      Let_def split: option.splits cache_file.splits)

lemma clean_proj:
  "WorkspaceCache_cleanWorkspacePath (Some ''file:///home/u/proj'') = Some ''/home/u/proj''"
  by code_simp

lemma clean_percent:
  "WorkspaceCache_cleanWorkspacePath (Some ''/srv/100%25'') = Some ''/srv/100%''"
  by code_simp

text \<open>
  C8 (amended). When the identifier is not empty (and not the reserved property name
  \<open>__proto__\<close>) and the cache file can be read and written, \<open>saveWorkspace(appId, p)\<close> followed by \<open>getWorkspace(appId)\<close>, in any later
  world whose cache file is the one just written, returns the normalised path of \<open>p\<close>
  when that path is not empty and exists on disk at read time, and \<open>null\<close> otherwise
  (also when \<open>p\<close> is \<open>null\<close> or empty). For a path that normalisation leaves unchanged
  this is \<open>p\<close> itself.
\<close>

theorem cache_round_trip:
  assumes "appId \<noteq> []"
    and "appId \<noteq> ''__proto__''"
    and "cache_dir_exists w \<or> cache_mkdir_error w = None"
    and "cache_write_error w = None"
    and "read_cacheData w = Inr cacheData"
    and "cache_file w' = cache_file (saveWorkspace w appId p)"
  shows "getWorkspace w' (Some appId) =
           (case WorkspaceCache_cleanWorkspacePath p of
              None \<Rightarrow> None
            | Some path \<Rightarrow> if path \<noteq> [] \<and> existsSync w' path then Some path else None)"
proof -
  from assms(3-6) have "cache_file w'
      = Some (CacheData (set_property appId (WorkspaceCache_cleanWorkspacePath p) cacheData))"
    by (simp add: saveWorkspace_cache_file)
  with assms(1,2) show ?thesis
    by (simp add: getWorkspace_def truthy_string_def or_empty_def set_property_def
        update_conv' Let_def split: option.splits)
qed

theorem cache_round_trip_witness:
  "getWorkspace (saveWorkspace (example_world example_handle) ''Cursor'' (Some ''file:///home/u/proj''))
       (Some ''Cursor'') = Some ''/home/u/proj''
   \<and> getWorkspace
        ((saveWorkspace (example_world example_handle) ''Cursor'' (Some ''file:///home/u/proj''))
           \<lparr>existsSync := (\<lambda>p. False)\<rparr>)
       (Some ''Cursor'') = None"
proof -
  let ?w = "example_world example_handle"
  let ?s = "saveWorkspace ?w ''Cursor'' (Some ''file:///home/u/proj'')"
  have a: "''Cursor'' \<noteq> []" and b: "''Cursor'' \<noteq> ''__proto__''" by simp_all
  have d: "cache_dir_exists ?w \<or> cache_mkdir_error ?w = None"
    and e: "cache_write_error ?w = None"
    and r: "read_cacheData ?w = Inr []"
    by (simp_all add: example_world_def read_cacheData_def)
  have ex: "existsSync ?s ''/home/u/proj''"
    by (simp add: saveWorkspace_def ensure_cache_dir_def read_cacheData_def write_cacheData_def
        example_world_def Let_def)
  from cache_round_trip [OF a b d e r refl] ex
  have 1: "getWorkspace ?s (Some ''Cursor'') = Some ''/home/u/proj''"
    by (simp add: clean_proj)
  have same: "cache_file (?s\<lparr>existsSync := (\<lambda>p. False)\<rparr>) = cache_file ?s" by simp
  from cache_round_trip [OF a b d e r same]
  have 2: "getWorkspace (?s\<lparr>existsSync := (\<lambda>p. False)\<rparr>) (Some ''Cursor'') = None"
    by (simp add: clean_proj)
  from 1 2 show ?thesis by blast
qed

text \<open>
  C8 as stated fails. Saving the folder URI \<open>file:///home/u/proj\<close>, which is not a
  path on disk, yields the path \<open>/home/u/proj\<close> on reading, neither the saved string
  nor \<open>null\<close>; and saving the path \<open>/srv/100%25\<close>, which exists on disk, yields
  \<open>null\<close>, because the path stored is its decoding \<open>/srv/100%\<close>.
\<close>

theorem cache_round_trip_returns_normalised:
  "\<not> existsSync (example_world example_handle) ''file:///home/u/proj''
   \<and> getWorkspace
        (saveWorkspace (example_world example_handle) ''Cursor'' (Some ''file:///home/u/proj''))
        (Some ''Cursor'') = Some ''/home/u/proj''
   \<and> existsSync ((example_world example_handle)\<lparr>existsSync := (\<lambda>p. p = ''/srv/100%25'')\<rparr>)
        ''/srv/100%25''
   \<and> getWorkspace
        (saveWorkspace ((example_world example_handle)\<lparr>existsSync := (\<lambda>p. p = ''/srv/100%25'')\<rparr>)
           ''Cursor'' (Some ''/srv/100%25''))
        (Some ''Cursor'') = None"
  by (simp add: saveWorkspace_def ensure_cache_dir_def read_cacheData_def write_cacheData_def
      set_property_def example_world_def Let_def clean_proj clean_percent getWorkspace_def
      truthy_string_def or_empty_def)

section \<open>Properties of locating the storage file\<close>

lemma first_existing_None_iff:
  "first_existing w ps = None \<longleftrightarrow> (\<forall>p \<in> set ps. \<not> existsSync w p)"
  by (induction ps) auto

lemma first_existing_Some_iff:
  "first_existing w ps = Some p \<longleftrightarrow>
     (\<exists>i < length ps. ps ! i = p \<and> existsSync w p \<and> (\<forall>j < i. \<not> existsSync w (ps ! j)))"
proof (induction ps)
  case Nil
  then show ?case by simp
next
  case (Cons a ps)
  show ?case
  proof (cases "existsSync w a")
    case True
    have "(\<exists>i < length (a # ps). (a # ps) ! i = p \<and> existsSync w p
             \<and> (\<forall>j < i. \<not> existsSync w ((a # ps) ! j))) \<longleftrightarrow> a = p"
    proof
      assume "\<exists>i < length (a # ps). (a # ps) ! i = p \<and> existsSync w p
             \<and> (\<forall>j < i. \<not> existsSync w ((a # ps) ! j))"
      then obtain i where i: "(a # ps) ! i = p" "\<forall>j < i. \<not> existsSync w ((a # ps) ! j)"
        by blast
      have "i = 0"
      proof (rule ccontr)
        assume "i \<noteq> 0"
        with i(2) have "\<not> existsSync w ((a # ps) ! 0)" by blast
        with True show False by simp
      qed
      with i(1) show "a = p" by simp
    next
      assume "a = p"
      with True have "(a # ps) ! 0 = p \<and> existsSync w p
             \<and> (\<forall>j < 0. \<not> existsSync w ((a # ps) ! j))" by simp
      then show "\<exists>i < length (a # ps). (a # ps) ! i = p \<and> existsSync w p
             \<and> (\<forall>j < i. \<not> existsSync w ((a # ps) ! j))" by blast
    qed
    with True show ?thesis by simp
  next
    case False
    have "(\<exists>i < length (a # ps). (a # ps) ! i = p \<and> existsSync w p
             \<and> (\<forall>j < i. \<not> existsSync w ((a # ps) ! j)))
        \<longleftrightarrow> (\<exists>i < length ps. ps ! i = p \<and> existsSync w p
             \<and> (\<forall>j < i. \<not> existsSync w (ps ! j)))" (is "?L \<longleftrightarrow> ?R")
    proof
      assume ?L
      then obtain i where i: "i < length (a # ps)" "(a # ps) ! i = p" "existsSync w p"
        "\<forall>j < i. \<not> existsSync w ((a # ps) ! j)" by blast
      from i(2,3) False have "i \<noteq> 0" by (cases i) auto
      then obtain k where k: "i = Suc k" by (cases i) auto
      with i(1,2) have "k < length ps" "ps ! k = p" by simp_all
      moreover have "\<forall>j < k. \<not> existsSync w (ps ! j)"
      proof (intro allI impI)
        fix j assume "j < k"
        with k have "Suc j < i" by simp
        with i(4) have "\<not> existsSync w ((a # ps) ! Suc j)" by blast
        then show "\<not> existsSync w (ps ! j)" by simp
      qed
      ultimately show ?R using i(3) by blast
    next
      assume ?R
      then obtain k where k: "k < length ps" "ps ! k = p" "existsSync w p"
        "\<forall>j < k. \<not> existsSync w (ps ! j)" by blast
      have "\<forall>j < Suc k. \<not> existsSync w ((a # ps) ! j)"
      proof (intro allI impI)
        fix j assume "j < Suc k"
        with k(4) False show "\<not> existsSync w ((a # ps) ! j)" by (cases j) auto
      qed
      with k(1-3) have "Suc k < length (a # ps) \<and> (a # ps) ! Suc k = p \<and> existsSync w p
          \<and> (\<forall>j < Suc k. \<not> existsSync w ((a # ps) ! j))" by simp
      then show ?L by blast
    qed
    with False Cons.IH show ?thesis by simp
  qed
qed

lemma first_existing_append:
  "first_existing w (xs @ ys) =
     (case first_existing w xs of Some p \<Rightarrow> Some p | None \<Rightarrow> first_existing w ys)"
  by (induction xs) simp_all

lemma first_existing_in_set:
  "first_existing w ps = Some p \<Longrightarrow> p \<in> set ps"
  by (induction ps) (auto split: if_splits)

lemma first_existing_prefers_front:
  assumes "\<exists>p \<in> set xs. existsSync w p"
  shows "\<exists>p \<in> set xs. first_existing w (xs @ ys) = Some p"
proof -
  from assms have "first_existing w xs \<noteq> None"
    by (simp add: first_existing_None_iff)
  then obtain p where p: "first_existing w xs = Some p" by blast
  then have "p \<in> set xs" by (rule first_existing_in_set)
  moreover from p have "first_existing w (xs @ ys) = Some p"
    by (simp add: first_existing_append)
  ultimately show ?thesis by blast
qed

lemma mac_paths:
  "VSCode_possiblePaths mac_world =
     [''/Users/u/Library/Application Support/Code/storage.json'',
      ''/Users/u/Library/Application Support/Code/User/globalStorage/state.vscdb'',
      ''/Users/u/Library/Application Support/Code/User/globalStorage/storage.json'',
      ''/Users/u/Library/Application Support/Code - Insiders/storage.json'',
      ''/Users/u/Library/Application Support/Code - Insiders/User/globalStorage/state.vscdb'',
      ''/Users/u/Library/Application Support/Code - Insiders/User/globalStorage/storage.json'']"
  by (simp add: VSCode_possiblePaths_def mac_world_def example_world_def)

lemma mac_exists:
  "existsSync mac_world p \<longleftrightarrow>
     p = ''/Users/u/Library/Application Support/Code/storage.json''
     \<or> p = ''/Users/u/Library/Application Support/Code - Insiders/storage.json''"
  by (simp add: mac_world_def example_world_def)

text \<open>
  C4 (amended). For both editors \<open>findStoragePath\<close> returns the candidate at the least
  index of the platform's list that exists, and nothing when none exists: it never looks
  past the first existing candidate. Where the list names both builds, for VS Code on
  macOS, the three files of the stable build come before those of the Insiders build:
  whenever a file of the stable build exists, the result is a file of the stable build.
\<close>

theorem findStoragePath_first_existing:
  "(VSCode_findStoragePath w = Some p \<longleftrightarrow>
      (\<exists>i < length (VSCode_possiblePaths w).
          VSCode_possiblePaths w ! i = p \<and> existsSync w p
          \<and> (\<forall>j < i. \<not> existsSync w (VSCode_possiblePaths w ! j))))
   \<and> (Cursor_findStoragePath w = Some p \<longleftrightarrow>
      (\<exists>i < length (Cursor_possiblePaths w).
          Cursor_possiblePaths w ! i = p \<and> existsSync w p
          \<and> (\<forall>j < i. \<not> existsSync w (Cursor_possiblePaths w ! j))))
   \<and> (VSCode_findStoragePath w = None \<longleftrightarrow>
        (\<forall>q \<in> set (VSCode_possiblePaths w). \<not> existsSync w q))
   \<and> (Cursor_findStoragePath w = None \<longleftrightarrow>
        (\<forall>q \<in> set (Cursor_possiblePaths w). \<not> existsSync w q))
   \<and> (platform w = ''darwin''
        \<and> (\<exists>s \<in> {''Library/Application Support/Code/storage.json'',
                   ''Library/Application Support/Code/User/globalStorage/state.vscdb'',
                   ''Library/Application Support/Code/User/globalStorage/storage.json''}.
               existsSync w (path_join w [homedir w, s]))
      \<longrightarrow> (\<exists>s \<in> {''Library/Application Support/Code/storage.json'',
                   ''Library/Application Support/Code/User/globalStorage/state.vscdb'',
                   ''Library/Application Support/Code/User/globalStorage/storage.json''}.
               VSCode_findStoragePath w = Some (path_join w [homedir w, s])))"
proof (intro conjI impI)
  show "VSCode_findStoragePath w = Some p \<longleftrightarrow>
      (\<exists>i < length (VSCode_possiblePaths w).
          VSCode_possiblePaths w ! i = p \<and> existsSync w p
          \<and> (\<forall>j < i. \<not> existsSync w (VSCode_possiblePaths w ! j)))"
    unfolding VSCode_findStoragePath_def by (rule first_existing_Some_iff)
  show "Cursor_findStoragePath w = Some p \<longleftrightarrow>
      (\<exists>i < length (Cursor_possiblePaths w).
          Cursor_possiblePaths w ! i = p \<and> existsSync w p
          \<and> (\<forall>j < i. \<not> existsSync w (Cursor_possiblePaths w ! j)))"
    unfolding Cursor_findStoragePath_def by (rule first_existing_Some_iff)
  show "VSCode_findStoragePath w = None \<longleftrightarrow>
        (\<forall>q \<in> set (VSCode_possiblePaths w). \<not> existsSync w q)"
    unfolding VSCode_findStoragePath_def by (rule first_existing_None_iff)
  show "Cursor_findStoragePath w = None \<longleftrightarrow>
        (\<forall>q \<in> set (Cursor_possiblePaths w). \<not> existsSync w q)"
    unfolding Cursor_findStoragePath_def by (rule first_existing_None_iff)
next
  let ?stable = "[path_join w [homedir w, ''Library/Application Support/Code/storage.json''],
         path_join w [homedir w,
           ''Library/Application Support/Code/User/globalStorage/state.vscdb''],
         path_join w [homedir w,
           ''Library/Application Support/Code/User/globalStorage/storage.json'']]"
  let ?insiders = "[path_join w [homedir w,
           ''Library/Application Support/Code - Insiders/storage.json''],
         path_join w [homedir w,
           ''Library/Application Support/Code - Insiders/User/globalStorage/state.vscdb''],
         path_join w [homedir w,
           ''Library/Application Support/Code - Insiders/User/globalStorage/storage.json'']]"
  assume a: "platform w = ''darwin''
        \<and> (\<exists>s \<in> {''Library/Application Support/Code/storage.json'',
                   ''Library/Application Support/Code/User/globalStorage/state.vscdb'',
                   ''Library/Application Support/Code/User/globalStorage/storage.json''}.
               existsSync w (path_join w [homedir w, s]))"
  then have paths: "VSCode_possiblePaths w = ?stable @ ?insiders"
    by (simp add: VSCode_possiblePaths_def)
  from a have "\<exists>p \<in> set ?stable. existsSync w p" by auto
  then have "\<exists>p \<in> set ?stable. first_existing w (?stable @ ?insiders) = Some p"
    by (rule first_existing_prefers_front)
  with paths show "\<exists>s \<in> {''Library/Application Support/Code/storage.json'',
                   ''Library/Application Support/Code/User/globalStorage/state.vscdb'',
                   ''Library/Application Support/Code/User/globalStorage/storage.json''}.
               VSCode_findStoragePath w = Some (path_join w [homedir w, s])"
    by (auto simp: VSCode_findStoragePath_def)
qed

theorem findStoragePath_first_existing_witness:
  "existsSync mac_world ''/Users/u/Library/Application Support/Code - Insiders/storage.json''
   \<and> VSCode_findStoragePath mac_world
       = Some ''/Users/u/Library/Application Support/Code/storage.json''"
proof -
  let ?p = "''/Users/u/Library/Application Support/Code/storage.json''"
  have "0 < length (VSCode_possiblePaths mac_world)
      \<and> VSCode_possiblePaths mac_world ! 0 = ?p \<and> existsSync mac_world ?p
      \<and> (\<forall>j < 0. \<not> existsSync mac_world (VSCode_possiblePaths mac_world ! j))"
    by (simp add: mac_paths mac_exists)
  then have "\<exists>i < length (VSCode_possiblePaths mac_world).
      VSCode_possiblePaths mac_world ! i = ?p \<and> existsSync mac_world ?p
      \<and> (\<forall>j < i. \<not> existsSync mac_world (VSCode_possiblePaths mac_world ! j))"
    by blast
  with findStoragePath_first_existing [of mac_world ?p]
  have "VSCode_findStoragePath mac_world = Some ?p" by blast
  then show ?thesis by (simp add: mac_exists)
qed

text \<open>
  C4 as stated fails in its last part: on a Mac where \<open>storage.json\<close> exists for both
  builds, the file of the stable build is returned, not the one of the Insiders build.
\<close>

theorem findStoragePath_stable_before_insiders:
  "existsSync mac_world ''/Users/u/Library/Application Support/Code - Insiders/storage.json''
   \<and> existsSync mac_world ''/Users/u/Library/Application Support/Code/storage.json''
   \<and> VSCode_findStoragePath mac_world
       \<noteq> Some ''/Users/u/Library/Application Support/Code - Insiders/storage.json''"
  by (simp add: VSCode_findStoragePath_def mac_paths mac_exists)

text \<open>
  The workspace an editor service reports is read from the located file alone: two
  worlds that agree on that file (and on \<open>JSON.parse\<close>) give the same workspace,
  whatever other candidates exist and whatever they contain.
\<close>

lemma scan_rows_cong:
  assumes parse: "JSON_parse w' = JSON_parse w"
  shows "scan_rows w' rows = scan_rows w rows"
proof (induction rows)
  case Nil
  show ?case by simp
next
  case (Cons row rows)
  show ?case unfolding scan_rows.simps Cons.IH parse ..
qed

lemma parseCursorJson_cong:
  assumes parse: "JSON_parse w' = JSON_parse w"
  shows "parseCursorJson w' content = parseCursorJson w content"
  unfolding parseCursorJson_def parse ..

lemma parseJsonStorage_cong:
  assumes parse: "JSON_parse w' = JSON_parse w"
    and read: "readFileSync w' p = readFileSync w p"
  shows "parseJsonStorage w' p = parseJsonStorage w p"
  unfolding parseJsonStorage_def parse read ..

lemma parseSqliteStorage_cong:
  assumes parse: "JSON_parse w' = JSON_parse w"
    and rows: "sqlite_all w' p = sqlite_all w p"
  shows "parseSqliteStorage w' p = parseSqliteStorage w p"
  unfolding parseSqliteStorage_def rows scan_rows_cong [OF parse] ..

lemma getWorkspace_reads_located_file_only:
  assumes parse: "JSON_parse w' = JSON_parse w"
    and read: "readFileSync w' p = readFileSync w p"
    and rows: "sqlite_all w' p = sqlite_all w p"
  shows "Cursor_findStoragePath w = Some p \<Longrightarrow> Cursor_findStoragePath w' = Some p \<Longrightarrow>
           Cursor_getWorkspace w' = Cursor_getWorkspace w"
    and "VSCode_findStoragePath w = Some p \<Longrightarrow> VSCode_findStoragePath w' = Some p \<Longrightarrow>
           VSCode_getWorkspace w' = VSCode_getWorkspace w"
proof -
  assume "Cursor_findStoragePath w = Some p" "Cursor_findStoragePath w' = Some p"
  then show "Cursor_getWorkspace w' = Cursor_getWorkspace w"
    by (simp add: Cursor_getWorkspace_def read parseCursorJson_cong [OF parse]
        split: sum.splits)
next
  assume "VSCode_findStoragePath w = Some p" "VSCode_findStoragePath w' = Some p"
  then show "VSCode_getWorkspace w' = VSCode_getWorkspace w"
    by (simp add: VSCode_getWorkspace_def parseJsonStorage_cong [OF parse read]
        parseSqliteStorage_cong [OF parse rows])
qed

section \<open>Properties of executeAction\<close>

text \<open>
  \<open>saveWorkspace\<close> touches the cache only, so what the Cursor service reads from its
  storage file is the same before and after.
\<close>

lemma saveWorkspace_frame:
  "existsSync (saveWorkspace w appId ws) = existsSync w"
  "readFileSync (saveWorkspace w appId ws) = readFileSync w"
  "JSON_parse (saveWorkspace w appId ws) = JSON_parse w"
  "platform (saveWorkspace w appId ws) = platform w"
  "homedir (saveWorkspace w appId ws) = homedir w"
  "APPDATA (saveWorkspace w appId ws) = APPDATA w"
  "path_join (saveWorkspace w appId ws) = path_join w"
  by (auto simp: saveWorkspace_def ensure_cache_dir_def write_cacheData_def Let_def
      split: sum.splits option.splits)

lemma saveWorkspace_cache_cases:
  "cache_file (saveWorkspace w appId ws) = cache_file w
   \<or> (\<exists>cacheData. read_cacheData w = Inr cacheData
        \<and> cache_file (saveWorkspace w appId ws)
            = Some (CacheData (set_property appId (WorkspaceCache_cleanWorkspacePath ws) cacheData)))"
  by (auto simp: saveWorkspace_def ensure_cache_dir_def write_cacheData_def read_cacheData_def
      Let_def split: sum.splits option.splits cache_file.splits)

lemma first_existing_cong:
  "existsSync w' = existsSync w \<Longrightarrow> first_existing w' ps = first_existing w ps"
  by (induction ps) simp_all

lemma Cursor_getWorkspace_saveWorkspace:
  "Cursor_getWorkspace (saveWorkspace w appId ws) = Cursor_getWorkspace w"
proof -
  have "Cursor_possiblePaths (saveWorkspace w appId ws) = Cursor_possiblePaths w"
    unfolding Cursor_possiblePaths_def saveWorkspace_frame ..
  then have located: "Cursor_findStoragePath (saveWorkspace w appId ws) = Cursor_findStoragePath w"
    by (simp add: Cursor_findStoragePath_def first_existing_cong [OF saveWorkspace_frame(1)])
  have parse: "parseCursorJson (saveWorkspace w appId ws) = parseCursorJson w"
    by (rule ext) (rule parseCursorJson_cong, rule saveWorkspace_frame)
  show ?thesis
    unfolding Cursor_getWorkspace_def located parse saveWorkspace_frame ..
qed

lemma cursor_app_names:
  assumes "js_includes (toLowerCase app) ''cursor''"
  shows "app \<noteq> []" and "app \<noteq> CURRENT_APP_KEY" and "app \<noteq> ''__proto__''"
proof -
  have 1: "\<not> js_includes (toLowerCase []) ''cursor''"
    by code_simp
  have 2: "\<not> js_includes (toLowerCase CURRENT_APP_KEY) ''cursor''"
    by code_simp
  have 3: "\<not> js_includes (toLowerCase ''__proto__'') ''cursor''"
    by code_simp
  from assms 1 show "app \<noteq> []" by blast
  from assms 2 show "app \<noteq> CURRENT_APP_KEY" by blast
  from assms 3 show "app \<noteq> ''__proto__''" by blast
qed

text \<open>
  When the folder the service reports does not exist on disk, storing it does not end
  the cache miss: whether or not the write goes through, reading the cache again yields
  nothing, and the cached current application is unchanged.
\<close>

lemma recache_still_misses:
  assumes miss: "getWorkspace w None = None"
    and app: "getCurrentApp w = app"
    and cursor: "js_includes (toLowerCase app) ''cursor''"
    and fresh: "fresh \<noteq> []"
    and gone: "\<not> existsSync w (cleanWorkspacePath fresh)"
  shows "getWorkspace (saveWorkspace w app (Some fresh)) None = None
       \<and> getCurrentApp (saveWorkspace w app (Some fresh)) = app"
proof -
  let ?w' = "saveWorkspace w app (Some fresh)"
  note names = cursor_app_names [OF cursor]
  from saveWorkspace_cache_cases [of w app "Some fresh"]
  show ?thesis
  proof
    assume same: "cache_file ?w' = cache_file w"
    have "getWorkspace ?w' None = getWorkspace w None"
      unfolding getWorkspace_def same saveWorkspace_frame ..
    moreover have "getCurrentApp ?w' = getCurrentApp w"
      unfolding getCurrentApp_def same ..
    ultimately show ?thesis using miss app by simp
  next
    assume "\<exists>cacheData. read_cacheData w = Inr cacheData
        \<and> cache_file ?w'
            = Some (CacheData (set_property app (WorkspaceCache_cleanWorkspacePath (Some fresh)) cacheData))"
    then obtain cacheData where rd: "read_cacheData w = Inr cacheData"
      and new: "cache_file ?w'
            = Some (CacheData (AList.update app (Some (cleanWorkspacePath fresh)) cacheData))"
      using names fresh
      by (auto simp: set_property_def WorkspaceCache_cleanWorkspacePath_Some)
    from app names(1) rd have key: "map_of cacheData CURRENT_APP_KEY = Some (Some app)"
      by (auto simp: getCurrentApp_def read_cacheData_def
          split: option.splits cache_file.splits)
    from new key names gone show ?thesis
      by (simp add: getWorkspace_def getCurrentApp_def truthy_string_def update_conv'
          saveWorkspace_frame Let_def)
  qed
qed

text \<open>
  Hence, when the cache misses, the current application is Cursor and the folder Cursor's
  storage names is not on disk, \<open>executeAction\<close> never returns: each call stores the
  folder and calls itself in a world where the same holds.
\<close>

lemma executeAction_never_returns:
  assumes miss: "getWorkspace w None = None"
    and app: "getCurrentApp w = app"
    and cursor: "js_includes (toLowerCase app) ''cursor''"
    and live: "Cursor_getWorkspace w = Some fresh"
    and fresh: "fresh \<noteq> []"
    and gone: "\<not> existsSync w (cleanWorkspacePath fresh)"
  shows "executeAction w action = None"
proof (cases "executeAction w action")
  case None
  then show ?thesis .
next
  case (Some r)
  let ?stuck = "\<lambda>v. getWorkspace v None = None \<and> getCurrentApp v = app
      \<and> Cursor_getWorkspace v = Some fresh \<and> \<not> existsSync v (cleanWorkspacePath fresh)"
  have "\<not> ?stuck w"
  proof (rule executeAction.raw_induct [where P = "\<lambda>v a r. \<not> ?stuck v", OF _ Some],
      goal_cases)
    case (1 f v a r)
    show ?case
    proof
      assume stuck: "?stuck v"
      let ?v' = "saveWorkspace v app (Some fresh)"
      from stuck cursor cursor_app_names(1) [OF cursor] 1(2) fresh
      have "f ?v' a = Some r"
        by (simp add: truthy_string_def)
      with 1(1) have "\<not> ?stuck ?v'" by blast
      moreover from stuck cursor fresh have "?stuck ?v'"
        by (simp add: recache_still_misses Cursor_getWorkspace_saveWorkspace saveWorkspace_frame)
      ultimately show False by blast
    qed
  qed
  with miss app live gone show ?thesis by blast
qed

lemma clean_gone: "cleanWorkspacePath ''file:///home/u/gone'' = ''/home/u/gone''"
  by code_simp

lemma lower_cursor: "js_includes (toLowerCase ''Cursor'') ''cursor''"
  by code_simp

lemma stale_facts:
  "getWorkspace stale_world None = None"
  "getCurrentApp stale_world = ''Cursor''"
  "Cursor_getWorkspace stale_world = Some ''file:///home/u/gone''"
  "\<not> existsSync stale_world ''/home/u/gone''"
     apply (simp_all add: getWorkspace_def getCurrentApp_def stale_world_def example_world_def
      CURRENT_APP_KEY_def truthy_string_def Cursor_getWorkspace_def Cursor_findStoragePath_def
      Cursor_possiblePaths_def parseCursorJson_def)
  apply code_simp
  done

text \<open>
  C9 does not hold of the code. With a cache that misses and a live resolution that
  yields a folder which no longer exists, \<open>executeAction\<close> stores the folder and calls
  itself; the cache misses again for the same reason, and so on. The run never returns:
  re-resolution is attempted without bound and the fixed message is never produced.
\<close>

theorem executeAction_diverges:
  "getWorkspace stale_world None = None
   \<and> Cursor_getWorkspace stale_world = Some ''file:///home/u/gone''
   \<and> executeAction stale_world action = None"
proof -
  have "''file:///home/u/gone'' \<noteq> []" by simp
  moreover have "\<not> existsSync stale_world (cleanWorkspacePath ''file:///home/u/gone'')"
    by (simp add: clean_gone stale_facts)
  ultimately have "executeAction stale_world action = None"
    using stale_facts(1,2) lower_cursor stale_facts(3)
    by (rule executeAction_never_returns [rotated 4])
  then show ?thesis by (simp add: stale_facts)
qed

end
